theory Spec2Isabelle
  imports Complex_Main "HOL-Library.Monad_Syntax"
begin

section \<open>Python values and library operations\<close>

text \<open>
  The load generation and metrics core of apitestkit is Python.  Python floats are
  idealised as reals (no NaN, no rounding), Python ints are \<open>int\<close>.  Strings are byte
  strings: error messages are taken to be ASCII, so that \<open>str.lower\<close> acts on the letters
  A to Z and a character is a byte.  A computation that may raise
  returns an option (\<open>None\<close>: the exception was raised) where the kind of exception does
  not matter, and a sum with the exception on the left where it does.
\<close>

definition py_int :: "real \<Rightarrow> int" where
  \<comment> \<open>\<open>int(x)\<close> on a float truncates towards zero.\<close>
  "py_int x = (if 0 \<le> x then \<lfloor>x\<rfloor> else \<lceil>x\<rceil>)"

definition py_truediv :: "real \<Rightarrow> real \<Rightarrow> real option" where
  \<comment> \<open>\<open>a / b\<close> raises ZeroDivisionError when \<open>b\<close> is zero.\<close>
  "py_truediv a b = (if b = 0 then None else Some (a / b))"

definition py_min :: "'a::linorder list \<Rightarrow> 'a option" where
  \<comment> \<open>\<open>min(xs)\<close> raises ValueError on an empty sequence.\<close>
  "py_min xs = (if xs = [] then None else Some (Min (set xs)))"

definition py_max :: "'a::linorder list \<Rightarrow> 'a option" where
  "py_max xs = (if xs = [] then None else Some (Max (set xs)))"

definition py_index :: "'a list \<Rightarrow> int \<Rightarrow> 'a option" where
  \<comment> \<open>\<open>xs[i]\<close>: a negative index counts from the end, out of range raises IndexError.\<close>
  "py_index xs i =
     (if 0 \<le> i \<and> i < int (length xs) then Some (xs ! nat i)
      else if i < 0 \<and> - int (length xs) \<le> i then Some (xs ! nat (int (length xs) + i))
      else None)"

fun starts_with :: "'a list \<Rightarrow> 'a list \<Rightarrow> bool" where
  "starts_with [] ys = True"
| "starts_with (x # xs) [] = False"
| "starts_with (x # xs) (y # ys) = (x = y \<and> starts_with xs ys)"

fun py_in :: "'a list \<Rightarrow> 'a list \<Rightarrow> bool" where
  \<comment> \<open>\<open>needle in haystack\<close> on strings.\<close>
  "py_in xs [] = (xs = [])"
| "py_in xs (y # ys) = (starts_with xs (y # ys) \<or> py_in xs ys)"

definition lower_char :: "char \<Rightarrow> char" where
  "lower_char c =
     (let n = (of_char c :: nat) in if 65 \<le> n \<and> n \<le> 90 then char_of (n + 32) else c)"

definition py_lower :: "string \<Rightarrow> string" where
  "py_lower s = map lower_char s"

fun dd_update :: "'k \<Rightarrow> 'v \<Rightarrow> ('v \<Rightarrow> 'v) \<Rightarrow> ('k \<times> 'v) list \<Rightarrow> ('k \<times> 'v) list" where
  \<comment> \<open>\<open>d[k] = f(d[k])\<close> on a defaultdict with default \<open>dflt\<close>, kept in insertion order.\<close>
  "dd_update k dflt f [] = [(k, f dflt)]"
| "dd_update k dflt f ((k', v) # kvs) =
     (if k' = k then (k', f v) # kvs else (k', v) # dd_update k dflt f kvs)"

definition dd_inc :: "'k \<Rightarrow> ('k \<times> int) list \<Rightarrow> ('k \<times> int) list" where
  \<comment> \<open>\<open>d[k] += 1\<close> on a \<open>defaultdict(int)\<close>.\<close>
  "dd_inc k d = dd_update k 0 (\<lambda>v. v + 1) d"

fun update_first :: "('a \<Rightarrow> bool) \<Rightarrow> ('a \<Rightarrow> 'a) \<Rightarrow> 'a list \<Rightarrow> 'a list option" where
  "update_first P f [] = None"
| "update_first P f (x # xs) =
     (if P x then Some (f x # xs)
      else (case update_first P f xs of None \<Rightarrow> None | Some ys \<Rightarrow> Some (x # ys)))"

section \<open>The metrics collector (metrics\_collector.py)\<close>

text \<open>
  The collector is the record \<open>metrics_collector\<close>: the fields of \<open>self\<close> and the entries
  of \<open>self._metrics\<close>.  A dict or defaultdict is the list of its items in insertion order
  (\<open>latency_samples\<close> is \<open>_metrics['latency_breakdown']\<close>).  \<open>record_request\<close> updates the
  collector under its lock, so a run is a sequence of \<open>record_request\<close> calls.  The
  functions that compute a summary return \<open>None\<close> when the computation raises (a
  division by zero, \<open>min\<close> or \<open>max\<close> of an empty list, an index out of range).
\<close>

record request_record =
  rr_start_time :: real
  rr_end_time :: real
  rr_response_time :: real
  rr_status_code :: "int option"
  rr_success :: bool
  rr_error :: "string option"
  rr_additional_data :: "(string \<times> string) list"
  rr_latency_breakdown :: "(string \<times> real) list"
  rr_connection_info :: "(string \<times> string) list"

text \<open>The arguments of one \<open>record_request\<close> call; an optional dict is \<open>None\<close> or a list of items.\<close>

record request_args =
  start_time :: real
  end_time :: real
  response_time :: real
  status_code :: "int option"
  success :: bool
  error :: "string option"
  additional_data :: "(string \<times> string) list option"
  latency_breakdown :: "(string \<times> real) list option"
  connection_info :: "(string \<times> string) list option"

record tx_metrics =
  tx_total_requests :: int
  tx_successful_requests :: int
  tx_failed_requests :: int
  tx_response_times :: "real list"

record ts_record =
  ts_timestamp :: int
  ts_total_requests :: int
  ts_successful_requests :: int
  ts_failed_requests :: int
  ts_response_times :: "real list"

record throughput_point =
  tp_timestamp :: real
  tp_response_time :: real
  tp_success :: bool

record metrics_collector =
  mc_start_time :: real
  mc_end_time :: "real option"
  mc_requests :: "request_record list"
  total_requests :: int
  successful_requests :: int
  failed_requests :: int
  response_times :: "real list"
  status_codes :: "(int \<times> int) list"
  errors :: "(string \<times> int) list"
  time_series :: "ts_record list"
  transaction_metrics :: "(string \<times> tx_metrics) list"
  concurrent_users :: int
  throughput_data :: "throughput_point list"
  latency_samples :: "(string \<times> real list) list"
  total_connections :: int
  failed_connections :: int
  connection_errors :: "(string \<times> int) list"
  mc_test_config :: "(string \<times> string) list option"
  last_per_second_data :: "((string \<times> int) \<times> int) list"

definition MetricsCollector_init :: "real \<Rightarrow> metrics_collector" where
  \<comment> \<open>\<open>__init__\<close>; \<open>now\<close> is what \<open>time.time()\<close> returns.\<close>
  "MetricsCollector_init now =
     \<lparr> mc_start_time = now, mc_end_time = None, mc_requests = [],
       total_requests = 0, successful_requests = 0, failed_requests = 0,
       response_times = [], status_codes = [], errors = [], time_series = [],
       transaction_metrics = [], concurrent_users = 0, throughput_data = [],
       latency_samples = [], total_connections = 0, failed_connections = 0,
       connection_errors = [], mc_test_config = None, last_per_second_data = [] \<rparr>"

definition error_patterns :: "(string \<times> string) list" where
  "error_patterns = [
    (''timeout'', [CHR 0xE8, CHR 0xAF, CHR 0xB7] @ [CHR 0xE6, CHR 0xB1, CHR 0x82] @ [CHR 0xE8, CHR 0xB6, CHR 0x85] @ [CHR 0xE6, CHR 0x97, CHR 0xB6]),
    (''Connection refused'', [CHR 0xE8, CHR 0xBF, CHR 0x9E] @ [CHR 0xE6, CHR 0x8E, CHR 0xA5] @ [CHR 0xE8, CHR 0xA2, CHR 0xAB] @ [CHR 0xE6, CHR 0x8B, CHR 0x92] @ [CHR 0xE7, CHR 0xBB, CHR 0x9D]),
    (''Connection reset'', [CHR 0xE8, CHR 0xBF, CHR 0x9E] @ [CHR 0xE6, CHR 0x8E, CHR 0xA5] @ [CHR 0xE9, CHR 0x87, CHR 0x8D] @ [CHR 0xE7, CHR 0xBD, CHR 0xAE]),
    (''Name or service not known'', [CHR 0xE5, CHR 0x9F, CHR 0x9F] @ [CHR 0xE5, CHR 0x90, CHR 0x8D] @ [CHR 0xE8, CHR 0xA7, CHR 0xA3] @ [CHR 0xE6, CHR 0x9E, CHR 0x90] @ [CHR 0xE5, CHR 0xA4, CHR 0xB1] @ [CHR 0xE8, CHR 0xB4, CHR 0xA5]),
    (''no route to host'', [CHR 0xE6, CHR 0x97, CHR 0xA0] @ [CHR 0xE6, CHR 0xB3, CHR 0x95] @ [CHR 0xE8, CHR 0xB7, CHR 0xAF] @ [CHR 0xE7, CHR 0x94, CHR 0xB1] @ [CHR 0xE5, CHR 0x88, CHR 0xB0] @ [CHR 0xE4, CHR 0xB8, CHR 0xBB] @ [CHR 0xE6, CHR 0x9C, CHR 0xBA]),
    (''ssl'', ''SSL'' @ [CHR 0xE9, CHR 0x94, CHR 0x99] @ [CHR 0xE8, CHR 0xAF, CHR 0xAF]),
    (''certificate'', [CHR 0xE8, CHR 0xAF, CHR 0x81] @ [CHR 0xE4, CHR 0xB9, CHR 0xA6] @ [CHR 0xE9, CHR 0x94, CHR 0x99] @ [CHR 0xE8, CHR 0xAF, CHR 0xAF]),
    (''400'', ''400'' @ [CHR 0xE9, CHR 0x94, CHR 0x99] @ [CHR 0xE8, CHR 0xAF, CHR 0xAF] @ [CHR 0xE8, CHR 0xAF, CHR 0xB7] @ [CHR 0xE6, CHR 0xB1, CHR 0x82]),
    (''401'', ''401'' @ [CHR 0xE6, CHR 0x9C, CHR 0xAA] @ [CHR 0xE6, CHR 0x8E, CHR 0x88] @ [CHR 0xE6, CHR 0x9D, CHR 0x83]),
    (''403'', ''403'' @ [CHR 0xE7, CHR 0xA6, CHR 0x81] @ [CHR 0xE6, CHR 0xAD, CHR 0xA2] @ [CHR 0xE8, CHR 0xAE, CHR 0xBF] @ [CHR 0xE9, CHR 0x97, CHR 0xAE]),
    (''404'', ''404'' @ [CHR 0xE6, CHR 0x9C, CHR 0xAA] @ [CHR 0xE6, CHR 0x89, CHR 0xBE] @ [CHR 0xE5, CHR 0x88, CHR 0xB0]),
    (''500'', ''500'' @ [CHR 0xE6, CHR 0x9C, CHR 0x8D] @ [CHR 0xE5, CHR 0x8A, CHR 0xA1] @ [CHR 0xE5, CHR 0x99, CHR 0xA8] @ [CHR 0xE9, CHR 0x94, CHR 0x99] @ [CHR 0xE8, CHR 0xAF, CHR 0xAF]),
    (''502'', ''502'' @ [CHR 0xE9, CHR 0x94, CHR 0x99] @ [CHR 0xE8, CHR 0xAF, CHR 0xAF] @ [CHR 0xE7, CHR 0xBD, CHR 0x91] @ [CHR 0xE5, CHR 0x85, CHR 0xB3]),
    (''503'', ''503'' @ [CHR 0xE6, CHR 0x9C, CHR 0x8D] @ [CHR 0xE5, CHR 0x8A, CHR 0xA1] @ [CHR 0xE4, CHR 0xB8, CHR 0x8D] @ [CHR 0xE5, CHR 0x8F, CHR 0xAF] @ [CHR 0xE7, CHR 0x94, CHR 0xA8]),
    (''504'', ''504'' @ [CHR 0xE7, CHR 0xBD, CHR 0x91] @ [CHR 0xE5, CHR 0x85, CHR 0xB3] @ [CHR 0xE8, CHR 0xB6, CHR 0x85] @ [CHR 0xE6, CHR 0x97, CHR 0xB6])]"

fun first_pattern :: "(string \<times> string) list \<Rightarrow> string \<Rightarrow> string option" where
  "first_pattern [] error_lower = None"
| "first_pattern ((pattern, simplified) # ps) error_lower =
     (if py_in pattern error_lower then Some simplified else first_pattern ps error_lower)"

definition simplify_error :: "string \<Rightarrow> string" where
  \<comment> \<open>\<open>_simplify_error\<close>: the label of the first pattern found in the lower-cased message,
      else the first 50 characters (bytes here: the messages are taken to be ASCII).\<close>
  "simplify_error err =
     (case first_pattern error_patterns (py_lower err) of
        Some simplified \<Rightarrow> simplified
      | None \<Rightarrow> take 50 err @ (if length err > 50 then ''...'' else ''''))"

definition record_time_series_data ::
  "int \<Rightarrow> bool \<Rightarrow> real \<Rightarrow> ts_record list \<Rightarrow> ts_record list" where
  \<comment> \<open>\<open>_record_time_series_data\<close>: the bucket of this second is searched from the end.\<close>
  "record_time_series_data timestamp succ rt ts =
     (case update_first (\<lambda>r. ts_timestamp r = timestamp)
             (\<lambda>r. if succ
                   then r\<lparr>ts_total_requests := ts_total_requests r + 1,
                          ts_successful_requests := ts_successful_requests r + 1,
                          ts_response_times := ts_response_times r @ [rt]\<rparr>
                   else r\<lparr>ts_total_requests := ts_total_requests r + 1,
                          ts_failed_requests := ts_failed_requests r + 1\<rparr>)
             (rev ts) of
        Some rs \<Rightarrow> rev rs
      | None \<Rightarrow> ts @ [\<lparr>ts_timestamp = timestamp, ts_total_requests = 1,
                        ts_successful_requests = (if succ then 1 else 0),
                        ts_failed_requests = (if succ then 0 else 1),
                        ts_response_times = (if succ then [rt] else [])\<rparr>])"

definition tx_default :: tx_metrics where
  "tx_default = \<lparr>tx_total_requests = 0, tx_successful_requests = 0,
                  tx_failed_requests = 0, tx_response_times = []\<rparr>"

definition record_transaction ::
  "request_args \<Rightarrow> (string \<times> tx_metrics) list \<Rightarrow> (string \<times> tx_metrics) list" where
  "record_transaction a txs =
     (case additional_data a of
        None \<Rightarrow> txs
      | Some ad \<Rightarrow>
          (case map_of ad ''transaction_name'' of
             None \<Rightarrow> txs
           | Some transaction_name \<Rightarrow>
               dd_update transaction_name tx_default
                 (\<lambda>t. if success a
                      then t\<lparr>tx_total_requests := tx_total_requests t + 1,
                             tx_successful_requests := tx_successful_requests t + 1,
                             tx_response_times := tx_response_times t @ [response_time a]\<rparr>
                      else t\<lparr>tx_total_requests := tx_total_requests t + 1,
                             tx_failed_requests := tx_failed_requests t + 1\<rparr>)
                 txs))"

definition record_outcome_counters :: "request_args \<Rightarrow> metrics_collector \<Rightarrow> metrics_collector" where
  \<comment> \<open>The \<open>if success: ... else: ...\<close> block of \<open>record_request\<close>.\<close>
  "record_outcome_counters a m =
     (if success a
      then m\<lparr>successful_requests := successful_requests m + 1,
             response_times := response_times m @ [response_time a],
             status_codes := (case status_code a of
                                None \<Rightarrow> status_codes m
                              | Some c \<Rightarrow> if c = 0 then status_codes m
                                          else dd_inc c (status_codes m))\<rparr>
      else m\<lparr>failed_requests := failed_requests m + 1,
             errors := (case error a of
                          None \<Rightarrow> errors m
                        | Some e \<Rightarrow> if e = [] then errors m
                                    else dd_inc (simplify_error e) (errors m))\<rparr>)"

definition record_latency ::
  "(string \<times> real) list option \<Rightarrow> (string \<times> real list) list \<Rightarrow> (string \<times> real list) list" where
  "record_latency lb samples =
     (case lb of
        None \<Rightarrow> samples
      | Some items \<Rightarrow>
          fold (\<lambda>(latency_type, latency_value) acc.
                  dd_update latency_type [] (\<lambda>vs. vs @ [latency_value]) acc) items samples)"

definition record_connection :: "request_args \<Rightarrow> metrics_collector \<Rightarrow> metrics_collector" where
  "record_connection a m =
     (case connection_info a of
        None \<Rightarrow> m
      | Some ci \<Rightarrow>
          if ci = [] then m
          else (let m1 = m\<lparr>total_connections := total_connections m + 1\<rparr>
                in case map_of ci ''connection_error'' of
                     None \<Rightarrow> m1
                   | Some conn_error \<Rightarrow>
                       if success a then m1
                       else m1\<lparr>failed_connections := failed_connections m1 + 1,
                               connection_errors := dd_inc conn_error (connection_errors m1)\<rparr>))"

definition record_request :: "request_args \<Rightarrow> metrics_collector \<Rightarrow> metrics_collector" where
  "record_request a m =
     (let request_record =
            \<lparr> rr_start_time = start_time a, rr_end_time = end_time a,
              rr_response_time = response_time a, rr_status_code = status_code a,
              rr_success = success a, rr_error = error a,
              rr_additional_data = (case additional_data a of None \<Rightarrow> [] | Some d \<Rightarrow> d),
              rr_latency_breakdown = (case latency_breakdown a of None \<Rightarrow> [] | Some d \<Rightarrow> d),
              rr_connection_info = (case connection_info a of None \<Rightarrow> [] | Some d \<Rightarrow> d) \<rparr>;
          m1 = m\<lparr>mc_requests := mc_requests m @ [request_record],
                 total_requests := total_requests m + 1\<rparr>;
          m2 = m1\<lparr>transaction_metrics := record_transaction a (transaction_metrics m1)\<rparr>;
          m3 = record_outcome_counters a m2;
          m4 = m3\<lparr>latency_samples := record_latency (latency_breakdown a) (latency_samples m3)\<rparr>;
          m5 = record_connection a m4;
          timestamp = py_int (start_time a);
          m6 = m5\<lparr>time_series :=
                    record_time_series_data timestamp (success a) (response_time a) (time_series m5)\<rparr>;
          m7 = m6\<lparr>throughput_data := throughput_data m6 @
                    [\<lparr>tp_timestamp = start_time a, tp_response_time = response_time a,
                      tp_success = success a\<rparr>]\<rparr>;
          second_key = py_int (start_time a)
      in m7\<lparr>last_per_second_data :=
               dd_inc (if success a then ''success'' else ''failed'', second_key)
                      (last_per_second_data m7)\<rparr>)"

definition record_all :: "metrics_collector \<Rightarrow> request_args list \<Rightarrow> metrics_collector" where
  \<comment> \<open>A sequence of \<open>record_request\<close> calls, in the order the lock serialises them.\<close>
  "record_all m reqs = foldl (\<lambda>s a. record_request a s) m reqs"

definition update_concurrent_users :: "int \<Rightarrow> metrics_collector \<Rightarrow> metrics_collector" where
  "update_concurrent_users current_users m =
     (if current_users > concurrent_users m then m\<lparr>concurrent_users := current_users\<rparr> else m)"

definition finalize :: "real \<Rightarrow> metrics_collector \<Rightarrow> metrics_collector" where
  \<comment> \<open>\<open>now\<close> is what \<open>time.time()\<close> returns.\<close>
  "finalize now m = m\<lparr>mc_end_time := Some now\<rparr>"

definition calculate_test_duration :: "metrics_collector \<Rightarrow> real option" where
  "calculate_test_duration m =
     (if mc_requests m = [] then Some 0
      else case mc_end_time m of
             Some e \<Rightarrow>
               if e \<noteq> 0 then Some (e - mc_start_time m)
               else do {
                 first_request_time \<leftarrow> py_min (map rr_start_time (mc_requests m));
                 last_request_time \<leftarrow> py_max (map rr_end_time (mc_requests m));
                 Some (last_request_time - first_request_time) }
           | None \<Rightarrow> do {
               first_request_time \<leftarrow> py_min (map rr_start_time (mc_requests m));
               last_request_time \<leftarrow> py_max (map rr_end_time (mc_requests m));
               Some (last_request_time - first_request_time) })"

definition calculate_percentile :: "real list \<Rightarrow> real \<Rightarrow> real option" where
  \<comment> \<open>\<open>_calculate_percentile\<close>; the index is computed in exact arithmetic.\<close>
  "calculate_percentile sorted_list percentile =
     (if sorted_list = [] then Some 0
      else (let index = py_int (real (length sorted_list) * percentile / 100);
                index' = (if index \<ge> int (length sorted_list)
                          then int (length sorted_list) - 1 else index)
            in py_index sorted_list index'))"

definition per_second_counts :: "throughput_point list \<Rightarrow> (int \<times> int) list" where
  \<comment> \<open>\<open>second_data[int(data_point['timestamp'])] += 1\<close> over the throughput data.\<close>
  "per_second_counts tds = fold (\<lambda>dp acc. dd_inc (py_int (tp_timestamp dp)) acc) tds []"

definition calculate_throughput_variation :: "metrics_collector \<Rightarrow> real option" where
  "calculate_throughput_variation m =
     (if length (throughput_data m) < 2 then Some 0
      else (let counts = map snd (per_second_counts (throughput_data m))
            in do {
              mean \<leftarrow> py_truediv (real_of_int (sum_list counts)) (real (length counts));
              variance \<leftarrow> py_truediv (sum_list (map (\<lambda>x. (real_of_int x - mean) ^ 2) counts))
                                      (real (length counts));
              Some (sqrt variance) }))"

record response_time_stats =
  rs_avg :: real
  rs_min :: real
  rs_max :: real
  rs_p50 :: real
  rs_p90 :: real
  rs_p95 :: real
  rs_p99 :: real
  rs_p999 :: real
  rs_std_dev :: real

definition summary_response_times :: "real list \<Rightarrow> response_time_stats option" where
  \<comment> \<open>The \<open>if response_times: ... else: ...\<close> block of \<open>get_summary_metrics\<close>, on the
      sorted list.\<close>
  "summary_response_times rts =
     (if rts \<noteq> [] then do {
        let count = real (length rts);
        avg_response_time \<leftarrow> py_truediv (sum_list rts) count;
        min_response_time \<leftarrow> py_min rts;
        max_response_time \<leftarrow> py_max rts;
        p50 \<leftarrow> calculate_percentile rts 50;
        p90 \<leftarrow> calculate_percentile rts 90;
        p95 \<leftarrow> calculate_percentile rts 95;
        p99 \<leftarrow> calculate_percentile rts 99;
        p999 \<leftarrow> calculate_percentile rts (999 / 10);
        let mean = avg_response_time;
        variance \<leftarrow> py_truediv (sum_list (map (\<lambda>x. (x - mean) ^ 2) rts)) count;
        Some \<lparr>rs_avg = avg_response_time, rs_min = min_response_time,
              rs_max = max_response_time, rs_p50 = p50, rs_p90 = p90, rs_p95 = p95,
              rs_p99 = p99, rs_p999 = p999, rs_std_dev = sqrt variance\<rparr> }
      else Some \<lparr>rs_avg = 0, rs_min = 0, rs_max = 0, rs_p50 = 0, rs_p90 = 0, rs_p95 = 0,
                 rs_p99 = 0, rs_p999 = 0, rs_std_dev = 0\<rparr>)"

record second_stats =
  ss_max_rps :: int
  ss_min_rps :: int
  ss_avg_second_rps :: real
  ss_p95_rps :: real
  ss_max_success_rps :: int
  ss_avg_success_rps :: real
  ss_max_failed_rps :: int
  ss_avg_failed_rps :: real

definition max_and_avg :: "(int \<times> int) list \<Rightarrow> (int \<times> real) option" where
  \<comment> \<open>\<open>max(values)\<close> and \<open>sum(values) / len(values)\<close> of a per-second dict, zeros when it
      is empty.\<close>
  "max_and_avg d =
     (if d \<noteq> [] then do {
        let values = map snd d;
        mx \<leftarrow> py_max values;
        av \<leftarrow> py_truediv (real_of_int (sum_list values)) (real (length values));
        Some (mx, av) }
      else Some (0, 0))"

definition summary_second_stats :: "throughput_point list \<Rightarrow> second_stats option" where
  "summary_second_stats tds =
     (let second_data = per_second_counts tds;
          success_second_data = per_second_counts (filter tp_success tds);
          failed_second_data = per_second_counts (filter (\<lambda>dp. \<not> tp_success dp) tds)
      in do {
        (max_rps, min_rps, avg_second_rps, p95_rps) \<leftarrow>
          (if second_data \<noteq> [] then do {
             let rps_values = map snd second_data;
             mx \<leftarrow> py_max rps_values;
             mn \<leftarrow> py_min rps_values;
             av \<leftarrow> py_truediv (real_of_int (sum_list rps_values)) (real (length rps_values));
             p95 \<leftarrow> calculate_percentile (map real_of_int (sort rps_values)) 95;
             Some (mx, mn, av, p95) }
           else Some (0, 0, 0, 0));
        (max_success_rps, avg_success_rps) \<leftarrow> max_and_avg success_second_data;
        (max_failed_rps, avg_failed_rps) \<leftarrow> max_and_avg failed_second_data;
        Some \<lparr>ss_max_rps = max_rps, ss_min_rps = min_rps, ss_avg_second_rps = avg_second_rps,
              ss_p95_rps = p95_rps, ss_max_success_rps = max_success_rps,
              ss_avg_success_rps = avg_success_rps, ss_max_failed_rps = max_failed_rps,
              ss_avg_failed_rps = avg_failed_rps\<rparr> })"

record latency_stat =
  ls_avg :: real
  ls_min :: real
  ls_max :: real
  ls_p50 :: real
  ls_p95 :: real
  ls_count :: int

definition latency_stat_of :: "real list \<Rightarrow> latency_stat option" where
  "latency_stat_of latencies =
     (if latencies \<noteq> [] then do {
        av \<leftarrow> py_truediv (sum_list latencies) (real (length latencies));
        mn \<leftarrow> py_min latencies;
        mx \<leftarrow> py_max latencies;
        p50 \<leftarrow> calculate_percentile (sort latencies) 50;
        p95 \<leftarrow> calculate_percentile (sort latencies) 95;
        Some \<lparr>ls_avg = av, ls_min = mn, ls_max = mx, ls_p50 = p50, ls_p95 = p95,
              ls_count = int (length latencies)\<rparr> }
      else Some \<lparr>ls_avg = 0, ls_min = 0, ls_max = 0, ls_p50 = 0, ls_p95 = 0, ls_count = 0\<rparr>)"

fun summary_latency_stats ::
  "(string \<times> real list) list \<Rightarrow> (string \<times> latency_stat) list option" where
  "summary_latency_stats [] = Some []"
| "summary_latency_stats ((latency_type, latencies) # rest) = do {
     st \<leftarrow> latency_stat_of latencies;
     sts \<leftarrow> summary_latency_stats rest;
     Some ((latency_type, st) # sts) }"

record connection_summary =
  cs_total_connections :: int
  cs_failed_connections :: int
  connection_success_rate :: real
  cs_connection_errors :: "(string \<times> int) list"

definition summary_connection_metrics :: "metrics_collector \<Rightarrow> connection_summary option" where
  "summary_connection_metrics m = do {
     rate \<leftarrow> (if total_connections m > 0 then do {
                 q \<leftarrow> py_truediv (real_of_int (failed_connections m))
                                  (real_of_int (total_connections m));
                 Some ((1 - q) * 100) }
               else Some 100);
     Some \<lparr>cs_total_connections = total_connections m,
           cs_failed_connections = failed_connections m,
           connection_success_rate = rate,
           cs_connection_errors = connection_errors m\<rparr> }"

record summary_metrics =
  sm_total_requests :: int
  sm_successful_requests :: int
  sm_failed_requests :: int
  success_rate :: real
  test_duration :: real
  rps :: real
  successful_rps :: real
  failed_rps :: real
  max_rps :: int
  min_rps :: int
  avg_second_rps :: real
  p95_rps :: real
  max_success_rps :: int
  avg_success_rps :: real
  max_failed_rps :: int
  avg_failed_rps :: real
  throughput_variation :: real
  avg_response_time :: real
  min_response_time :: real
  max_response_time :: real
  p50_response_time :: real
  p90_response_time :: real
  p95_response_time :: real
  p99_response_time :: real
  p999_response_time :: real
  response_time_std_dev :: real
  max_concurrent_users :: int
  latency_stats :: "(string \<times> latency_stat) list"
  connection_metrics :: connection_summary
  status_codes_distribution :: "(int \<times> int) list"
  errors_distribution :: "(string \<times> int) list"

definition get_summary_metrics ::
  "metrics_collector \<Rightarrow> (summary_metrics \<times> metrics_collector) option" where
  \<comment> \<open>Returns the summary and the collector as the call leaves it: \<open>response_times.sort()\<close>
      sorts the collector's own list in place.\<close>
  "get_summary_metrics m = do {
     duration \<leftarrow> calculate_test_duration m;
     let total = total_requests m;
     let successful = successful_requests m;
     let failed = failed_requests m;
     (r, sr, fr) \<leftarrow>
       (if duration > 0 then do {
          a \<leftarrow> py_truediv (real_of_int total) duration;
          b \<leftarrow> py_truediv (real_of_int successful) duration;
          c \<leftarrow> py_truediv (real_of_int failed) duration;
          Some (a, b, c) }
        else Some (0, 0, 0));
     let m' = m\<lparr>response_times := sort (response_times m)\<rparr>;
     rt \<leftarrow> summary_response_times (response_times m');
     rate \<leftarrow> (if total > 0 then do {
                 q \<leftarrow> py_truediv (real_of_int successful) (real_of_int total);
                 Some (q * 100) }
               else Some 0);
     variation \<leftarrow> calculate_throughput_variation m';
     ss \<leftarrow> summary_second_stats (throughput_data m');
     ls \<leftarrow> summary_latency_stats (latency_samples m');
     cm \<leftarrow> summary_connection_metrics m';
     Some (\<lparr>sm_total_requests = total, sm_successful_requests = successful,
            sm_failed_requests = failed, success_rate = rate, test_duration = duration,
            rps = r, successful_rps = sr, failed_rps = fr,
            max_rps = ss_max_rps ss, min_rps = ss_min_rps ss,
            avg_second_rps = ss_avg_second_rps ss, p95_rps = ss_p95_rps ss,
            max_success_rps = ss_max_success_rps ss, avg_success_rps = ss_avg_success_rps ss,
            max_failed_rps = ss_max_failed_rps ss, avg_failed_rps = ss_avg_failed_rps ss,
            throughput_variation = variation,
            avg_response_time = rs_avg rt, min_response_time = rs_min rt,
            max_response_time = rs_max rt, p50_response_time = rs_p50 rt,
            p90_response_time = rs_p90 rt, p95_response_time = rs_p95 rt,
            p99_response_time = rs_p99 rt, p999_response_time = rs_p999 rt,
            response_time_std_dev = rs_std_dev rt,
            max_concurrent_users = concurrent_users m',
            latency_stats = ls, connection_metrics = cm,
            status_codes_distribution = status_codes m',
            errors_distribution = errors m'\<rparr>, m') }"

record tx_summary =
  txs_total_requests :: int
  txs_successful_requests :: int
  txs_failed_requests :: int
  txs_success_rate :: real
  txs_avg_response_time :: real
  txs_min_response_time :: real
  txs_max_response_time :: real
  txs_p50_response_time :: real
  txs_p90_response_time :: real
  txs_p95_response_time :: real
  txs_p99_response_time :: real

definition tx_summary_of :: "tx_metrics \<Rightarrow> (tx_summary \<times> tx_metrics) option" where
  \<comment> \<open>One iteration of the loop of \<open>_get_transaction_metrics\<close>: the summary of a
      transaction and its data as the iteration leaves them.\<close>
  "tx_summary_of tx_data =
     (if tx_response_times tx_data \<noteq> [] then do {
        let rts = sort (tx_response_times tx_data);
        let count = real (length rts);
        rate \<leftarrow> (if tx_total_requests tx_data > 0 then do {
                    q \<leftarrow> py_truediv (real_of_int (tx_successful_requests tx_data))
                                     (real_of_int (tx_total_requests tx_data));
                    Some (q * 100) }
                  else Some 0);
        av \<leftarrow> py_truediv (sum_list rts) count;
        mn \<leftarrow> py_min rts;
        mx \<leftarrow> py_max rts;
        p50 \<leftarrow> calculate_percentile rts 50;
        p90 \<leftarrow> calculate_percentile rts 90;
        p95 \<leftarrow> calculate_percentile rts 95;
        p99 \<leftarrow> calculate_percentile rts 99;
        Some (\<lparr>txs_total_requests = tx_total_requests tx_data,
               txs_successful_requests = tx_successful_requests tx_data,
               txs_failed_requests = tx_failed_requests tx_data,
               txs_success_rate = rate, txs_avg_response_time = av,
               txs_min_response_time = mn, txs_max_response_time = mx,
               txs_p50_response_time = p50, txs_p90_response_time = p90,
               txs_p95_response_time = p95, txs_p99_response_time = p99\<rparr>,
              tx_data\<lparr>tx_response_times := rts\<rparr>) }
      else Some (\<lparr>txs_total_requests = tx_total_requests tx_data,
                  txs_successful_requests = tx_successful_requests tx_data,
                  txs_failed_requests = tx_failed_requests tx_data,
                  txs_success_rate = 0, txs_avg_response_time = 0,
                  txs_min_response_time = 0, txs_max_response_time = 0,
                  txs_p50_response_time = 0, txs_p90_response_time = 0,
                  txs_p95_response_time = 0, txs_p99_response_time = 0\<rparr>, tx_data))"

fun tx_summaries ::
  "(string \<times> tx_metrics) list \<Rightarrow> ((string \<times> tx_summary) list \<times> (string \<times> tx_metrics) list) option" where
  "tx_summaries [] = Some ([], [])"
| "tx_summaries ((tx_name, tx_data) # rest) = do {
     (s, d) \<leftarrow> tx_summary_of tx_data;
     (ss, ds) \<leftarrow> tx_summaries rest;
     Some ((tx_name, s) # ss, (tx_name, d) # ds) }"

definition get_transaction_metrics ::
  "metrics_collector \<Rightarrow> ((string \<times> tx_summary) list \<times> metrics_collector) option" where
  "get_transaction_metrics m = do {
     (ss, ds) \<leftarrow> tx_summaries (transaction_metrics m);
     Some (ss, m\<lparr>transaction_metrics := ds\<rparr>) }"

section \<open>The load generator (load\_generator.py)\<close>

text \<open>
  What a task, a before or an after function returns is a Python value; \<open>PyObject\<close> is an
  object known by the names of its attributes (a \<open>requests.Response\<close> has
  \<open>status_code\<close>).  An exception is known by the name of its class, the classes it is an
  instance of (by qualified name) and its message \<open>str(e)\<close>; every exception a user
  function raises is an \<open>Exception\<close>, as the handlers \<open>except Exception\<close> assume.

  A user function is given by what its \<open>n\<close>-th call does: whether \<open>stop()\<close> is called on
  the generator while it runs (by the function itself or by another thread) and whether it
  returns a value or raises.  A function that drives a user function takes the number of
  calls made so far and returns the number after it.

  The configuration is an object that has every attribute.  \<open>time.sleep\<close> is a log of the
  delays slept; the retry delay is taken to be non-negative (\<open>time.sleep\<close> raises
  \<open>ValueError\<close> for a negative one).  The error thresholds and \<open>_check_error_threshold\<close>
  belong to the load loops and are not modelled.
\<close>

datatype py_value =
    PyNone
  | PyBool bool
  | PyInt int
  | PyFloat real
  | PyStr string
  | PyList "py_value list"
  | PyDict "(string \<times> py_value) list"
  | PyObject "string list"

fun truthy :: "py_value \<Rightarrow> bool" where
  "truthy PyNone = False"
| "truthy (PyBool b) = b"
| "truthy (PyInt i) = (i \<noteq> 0)"
| "truthy (PyFloat x) = (x \<noteq> 0)"
| "truthy (PyStr s) = (s \<noteq> [])"
| "truthy (PyList vs) = (vs \<noteq> [])"
| "truthy (PyDict d) = (d \<noteq> [])"
| "truthy (PyObject attrs) = True"

fun hasattr :: "py_value \<Rightarrow> string \<Rightarrow> bool" where
  "hasattr (PyObject attrs) a = (a \<in> set attrs)"
| "hasattr v a = False"

definition dict_get :: "(string \<times> py_value) list \<Rightarrow> string \<Rightarrow> py_value \<Rightarrow> py_value" where
  "dict_get d k dflt = (case map_of d k of Some v \<Rightarrow> v | None \<Rightarrow> dflt)"

text \<open>
  \<open>dict_get_str\<close> reads a string entry; it is used only on the branch of
  \<open>_execute_before_tasks\<close> that handles an unsuccessful result.
\<close>

definition dict_get_str :: "(string \<times> py_value) list \<Rightarrow> string \<Rightarrow> string \<Rightarrow> string" where
  "dict_get_str d k dflt = (case map_of d k of Some (PyStr s) \<Rightarrow> s | _ \<Rightarrow> dflt)"

definition dict_set :: "string \<Rightarrow> py_value \<Rightarrow> (string \<times> py_value) list \<Rightarrow> (string \<times> py_value) list" where
  "dict_set k v d = dd_update k v (\<lambda>_. v) d"

record py_exception =
  exc_class_name :: string
  exc_isinstance :: "string list"
  exc_str :: string

definition isinstance :: "py_exception \<Rightarrow> string \<Rightarrow> bool" where
  "isinstance e c = (c \<in> set (exc_isinstance e))"

datatype call_outcome = Raises py_exception | Returns py_value

record call_behaviour =
  calls_stop :: bool
  outcome :: call_outcome

type_synonym py_callable = "nat \<Rightarrow> call_behaviour"

record retry_config =
  rc_max_retries :: int
  rc_retry_delay :: real
  rc_retryable_errors :: "string list"

record test_config =
  test_type :: string
  max_retries :: int
  retry_delay :: real
  retryable_errors :: "string list"
  stop_on_error :: bool
  before_concurrent :: int
  after_concurrent :: int
  max_thread_pool_size :: int
  cfg_concurrent_users :: int
  ramp_up_steps :: int
  ramp_up_time :: real
  duration :: real

record load_generator =
  running :: bool
  stop_event :: bool
  current_users :: int
  completed_tasks :: int
  before_tasks_completed :: bool
  after_tasks_completed :: bool
  before_results :: "py_value list"
  after_results :: "py_value list"
  error_count :: int
  total_errors :: int
  consecutive_errors :: int
  consecutive_error_count :: int
  error_statistics :: "(string \<times> int) list"
  error_details :: "(string \<times> int) list"
  retry_config :: retry_config
  sleeps :: "real list"

definition LoadGenerator_init :: "test_config \<Rightarrow> load_generator" where
  \<comment> \<open>\<open>__init__\<close> with \<open>_init_error_handling_config\<close>; the dict \<open>error_details\<close> inside
      \<open>_error_statistics\<close> is a field of its own.\<close>
  "LoadGenerator_init cfg =
     \<lparr> running = False, stop_event = False, current_users = 0, completed_tasks = 0,
       before_tasks_completed = False, after_tasks_completed = False,
       before_results = [], after_results = [], error_count = 0, total_errors = 0,
       consecutive_errors = 0, consecutive_error_count = 0,
       error_statistics = [(''total_errors'', 0), (''timeout'', 0), (''connection_error'', 0),
         (''business_error'', 0), (''system_error'', 0), (''unexpected_error'', 0),
         (''other_error'', 0)],
       error_details = [],
       retry_config = \<lparr>rc_max_retries = max_retries cfg, rc_retry_delay = retry_delay cfg,
                        rc_retryable_errors = retryable_errors cfg\<rparr>,
       sleeps = [] \<rparr>"

definition stop :: "load_generator \<Rightarrow> load_generator" where
  "stop g = g\<lparr>stop_event := True, running := False\<rparr>"

definition classify_error_type :: "py_exception \<Rightarrow> string" where
  \<comment> \<open>\<open>_classify_error_type\<close>, branch by branch; the message is lower-cased as ASCII.\<close>
  "classify_error_type e =
     (let exception_str = py_lower (exc_str e)
      in if isinstance e ''AssertionError'' then ''assertion_error''
         else if isinstance e ''socket.timeout'' then ''timeout''
         else if isinstance e ''requests.exceptions.Timeout'' \<or> py_in ''timeout'' exception_str
           then ''timeout''
         else if isinstance e ''requests.exceptions.ConnectionError'' \<or>
                 (py_in ''connection'' exception_str \<or> py_in ''network'' exception_str \<or>
                  py_in ''connect'' exception_str)
           then ''connection_error''
         else if py_in ''HTTPError'' (exc_class_name e) then ''http_error''
         else if isinstance e ''requests.exceptions.HTTPError'' then ''http_error''
         else if isinstance e ''requests.exceptions.RequestException'' then ''request_error''
         else ''other_error'')"

definition error_type_mapping :: "(string \<times> string) list" where
  "error_type_mapping =
     [(''timeout'', ''timeout''), (''connection_error'', ''connection_error''),
      (''http_error'', ''business_error''), (''assertion_error'', ''business_error''),
      (''validation_error'', ''business_error''), (''business_error'', ''business_error''),
      (''system_error'', ''system_error''), (''unexpected_error'', ''unexpected_error'')]"

definition record_error :: "string \<Rightarrow> string \<Rightarrow> load_generator \<Rightarrow> load_generator" where
  \<comment> \<open>\<open>_record_error\<close>.  The keys \<open>total_errors\<close> and \<open>other_error\<close> are in every
      statistics dict the generator builds, so \<open>+= 1\<close> on them never raises.  The error
      type is never the string \<open>error_details\<close>, the key of the details dict: no caller
      passes it (for it the code raises \<open>TypeError\<close>).\<close>
  "record_error error_type error_message g =
     (let stats1 = dd_inc ''total_errors'' (error_statistics g);
          g1 = g\<lparr>error_count := error_count g + 1,
                 total_errors := (case map_of stats1 ''total_errors'' of Some n \<Rightarrow> n | None \<Rightarrow> 0),
                 consecutive_errors := consecutive_errors g + 1,
                 consecutive_error_count := consecutive_errors g + 1\<rparr>;
          normalized_error_type =
            (case map_of error_type_mapping error_type of Some t \<Rightarrow> t | None \<Rightarrow> ''other_error'');
          stats2 = (if normalized_error_type \<in> fst ` set stats1
                    then dd_inc normalized_error_type stats1
                    else dd_inc ''other_error'' stats1);
          stats3 = (if error_type \<notin> set [''timeout'', ''connection_error'', ''business_error'',
                                           ''system_error'', ''unexpected_error'', ''other_error'']
                    then dd_inc error_type stats2 else stats2);
          g2 = g1\<lparr>error_statistics := stats3,
                  error_details := dd_inc error_message (error_details g1)\<rparr>
      in if normalized_error_type = ''system_error'' then g2\<lparr>stop_event := True\<rparr> else g2)"

fun dict_with_success :: "py_value \<Rightarrow> bool" where
  \<comment> \<open>\<open>isinstance(result, dict) and result.get('success', True)\<close>\<close>
  "dict_with_success (PyDict d) = truthy (dict_get d ''success'' (PyBool True))"
| "dict_with_success v = False"

text \<open>
  The loop \<open>for attempt in range(max_retries + 1)\<close> of \<open>_execute_with_retry\<close>:
  \<open>remaining\<close> iterations are left, \<open>n\<close> calls of the task were made so far.  When the
  iterations run out the function returns \<open>None\<close> (its last line).
\<close>

fun retry_loop ::
  "py_callable \<Rightarrow> nat \<Rightarrow> nat \<Rightarrow> nat \<Rightarrow> load_generator \<Rightarrow> py_value \<times> nat \<times> load_generator" where
  "retry_loop task_func n attempt 0 g = (PyNone, n, g)"
| "retry_loop task_func n attempt (Suc remaining) g =
     (let b = task_func n;
          g0 = (if calls_stop b then stop g else g)
      in case outcome b of
           Returns result \<Rightarrow>
             (let g1 = g0\<lparr>consecutive_error_count := 0, consecutive_errors := 0\<rparr>
              in (if dict_with_success result then result
                  else if hasattr result ''status_code''
                    then PyDict [(''success'', PyBool True), (''result'', result)]
                  else if result \<noteq> PyNone
                    then PyDict [(''success'', PyBool True), (''result'', result)]
                  else PyDict [(''success'', PyBool True)],
                  Suc n, g1))
         | Raises e \<Rightarrow>
             (let error_type = classify_error_type e;
                  error_info = exc_str e;
                  g1 = record_error error_type error_info g0;
                  g2 = g1\<lparr>consecutive_error_count := consecutive_error_count g1 + 1\<rparr>;
                  g3 = g2\<lparr>consecutive_errors := consecutive_error_count g2\<rparr>;
                  should_retry = (error_type \<in> set (rc_retryable_errors (retry_config g3)) \<or>
                                  error_type = ''timeout'' \<or> isinstance e ''socket.timeout'')
              in if should_retry \<and> int attempt < rc_max_retries (retry_config g3)
                 then retry_loop task_func (Suc n) (Suc attempt) remaining
                        (g3\<lparr>sleeps := sleeps g3 @
                              [rc_retry_delay (retry_config g3) * 2 ^ attempt]\<rparr>)
                 else (PyNone, Suc n, g3)))"

text \<open>
  \<open>_execute_with_retry\<close> for a task function; its other calling form, an HTTP method and
  a URL, runs the same loop on the task \<open>requests.request(method, url)\<close>.
\<close>

definition execute_with_retry ::
  "py_callable \<Rightarrow> nat \<Rightarrow> load_generator \<Rightarrow> py_value \<times> nat \<times> load_generator" where
  "execute_with_retry task_func n g =
     retry_loop task_func n 0 (nat (rc_max_retries (retry_config g) + 1))
       (g\<lparr>consecutive_error_count := 0, consecutive_errors := 0\<rparr>)"

definition pool_size_error :: py_exception where
  \<comment> \<open>What \<open>ThreadPoolExecutor(max_workers=n)\<close> raises for \<open>n \<le> 0\<close>.\<close>
  "pool_size_error =
     \<lparr>exc_class_name = ''ValueError'', exc_isinstance = [''ValueError'', ''Exception''],
      exc_str = ''max_workers must be greater than 0''\<rparr>"

definition none_has_no_get :: py_exception where
  \<comment> \<open>What \<open>result.get(...)\<close> raises when \<open>result\<close> is \<open>None\<close>.\<close>
  "none_has_no_get =
     \<lparr>exc_class_name = ''AttributeError'', exc_isinstance = [''AttributeError'', ''Exception''],
      exc_str = [CHR 0x27] @ ''NoneType'' @ [CHR 0x27] @ '' object has no attribute '' @
                [CHR 0x27] @ ''get'' @ [CHR 0x27]\<rparr>"

definition undefined_max_thread_pool_size :: py_exception where
  \<comment> \<open>What reading the local name \<open>max_thread_pool_size\<close> raises in
      \<open>_generate_ramp_up_load\<close>, which never assigns it.\<close>
  "undefined_max_thread_pool_size =
     \<lparr>exc_class_name = ''NameError'', exc_isinstance = [''NameError'', ''Exception''],
      exc_str = ''name '' @ [CHR 0x27] @ ''max_thread_pool_size'' @ [CHR 0x27] @
                '' is not defined''\<rparr>"

definition unsupported_test_type :: "string \<Rightarrow> py_exception" where
  "unsupported_test_type t =
     \<lparr>exc_class_name = ''ValueError'', exc_isinstance = [''ValueError'', ''Exception''],
      exc_str = [CHR 0xE4, CHR 0xB8, CHR 0x8D] @ [CHR 0xE6, CHR 0x94, CHR 0xAF] @
                [CHR 0xE6, CHR 0x8C, CHR 0x81] @ [CHR 0xE7, CHR 0x9A, CHR 0x84] @
                [CHR 0xE6, CHR 0xB5, CHR 0x8B] @ [CHR 0xE8, CHR 0xAF, CHR 0x95] @
                [CHR 0xE7, CHR 0xB1, CHR 0xBB] @ [CHR 0xE5, CHR 0x9E, CHR 0x8B] @ '': '' @ t\<rparr>"

definition pool_workers :: "int \<Rightarrow> int \<Rightarrow> int" where
  \<comment> \<open>\<open>max_workers = n; if max_thread_pool_size > 0: max_workers = min(max_workers, max_thread_pool_size)\<close>\<close>
  "pool_workers n pool_size = (if pool_size > 0 then min n pool_size else n)"

text \<open>
  \<open>_execute_before_tasks\<close>.  \<open>executor.submit(before_func)\<close> is the first call of the
  before function; \<open>as_completed\<close> waits for it and nothing reads its result.  The loop
  body then runs \<open>_execute_with_retry(before_func)\<close> and reads the result with
  \<open>result.get\<close>, which raises when the result is \<open>None\<close>.
\<close>

definition execute_before_tasks ::
  "test_config \<Rightarrow> py_callable \<Rightarrow> nat \<Rightarrow> load_generator \<Rightarrow>
     (py_exception + unit) \<times> nat \<times> load_generator" where
  "execute_before_tasks cfg before_func n g =
     (let max_workers = pool_workers (before_concurrent cfg) (max_thread_pool_size cfg)
      in if max_workers \<le> 0 then (Inl pool_size_error, n, g)
         else
           (let submitted = before_func n;
                g1 = (if calls_stop submitted then stop g else g);
                (result, n', g2) = execute_with_retry before_func (Suc n) g1;
                g3 = g2\<lparr>before_results := before_results g2 @ [result]\<rparr>
            in case result of
                 PyDict d \<Rightarrow>
                   if \<not> truthy (dict_get d ''success'' (PyBool True))
                   then (let g4 = record_error (dict_get_str d ''error_type'' ''unknown'')
                                    (dict_get_str d ''error'' ''Unknown error'') g3
                         in if stop_on_error cfg then (Inr (), n', stop g4)
                            else (Inr (), n', g4\<lparr>before_tasks_completed := True\<rparr>))
                   else (Inr (), n', g3\<lparr>before_tasks_completed := True\<rparr>)
               | _ \<Rightarrow> (Inl none_has_no_get, n', g3)))"

text \<open>\<open>_execute_after_tasks\<close>: one submission, whose result or exception is recorded.\<close>

definition execute_after_tasks ::
  "test_config \<Rightarrow> py_callable \<Rightarrow> nat \<Rightarrow> load_generator \<Rightarrow>
     (py_exception + unit) \<times> nat \<times> load_generator" where
  "execute_after_tasks cfg after_func n g =
     (let max_workers = pool_workers (after_concurrent cfg) (max_thread_pool_size cfg)
      in if max_workers \<le> 0 then (Inl pool_size_error, n, g)
         else
           (let submitted = after_func n;
                g1 = (if calls_stop submitted then stop g else g);
                g2 = (case outcome submitted of
                        Returns result \<Rightarrow> g1\<lparr>after_results := after_results g1 @ [result]\<rparr>
                      | Raises e \<Rightarrow>
                          g1\<lparr>after_results := after_results g1 @
                               [PyDict [(''success'', PyBool False), (''error'', PyStr (exc_str e))]]\<rparr>)
            in (Inr (), Suc n, g2\<lparr>after_tasks_completed := True\<rparr>)))"

text \<open>
  The load loops run tasks on a thread pool against the wall clock.  What the coordinator
  sees of a loop is the dict it returns or the exception it raises, and the generator it
  leaves; these are parameters of the model, one for each loop.
\<close>

record load_phases =
  concurrent_load :: "load_generator \<Rightarrow> (py_exception + (string \<times> py_value) list) \<times> load_generator"
  tps_load :: "load_generator \<Rightarrow> (py_exception + (string \<times> py_value) list) \<times> load_generator"
  qps_load :: "load_generator \<Rightarrow> (py_exception + (string \<times> py_value) list) \<times> load_generator"
  stability_load :: "load_generator \<Rightarrow> (py_exception + (string \<times> py_value) list) \<times> load_generator"
  ramp_up_stable_phase :: "load_generator \<Rightarrow> (py_exception + py_value list \<times> py_value) \<times> load_generator"

definition reset_error_statistics :: "load_generator \<Rightarrow> load_generator" where
  "reset_error_statistics g =
     g\<lparr>error_count := 0,
       error_statistics := [(''timeout'', 0), (''connection_error'', 0), (''business_error'', 0),
                            (''other_error'', 0), (''total_errors'', 0)],
       error_details := []\<rparr>"

text \<open>
  The ramp loop of \<open>_generate_ramp_up_load\<close> over \<open>range(ramp_up_steps + 1)\<close>.  A step
  with a positive number of users sets \<open>_current_users\<close> and then evaluates
  \<open>max_thread_pool_size > 0\<close>; the method never assigns that name, so the step raises
  \<open>NameError\<close> and the rest of the loop body is never reached.
\<close>

fun ramp_up_loop ::
  "test_config \<Rightarrow> int \<Rightarrow> int list \<Rightarrow> load_generator \<Rightarrow> (py_exception + unit) \<times> load_generator" where
  "ramp_up_loop cfg step_users [] g = (Inr (), g)"
| "ramp_up_loop cfg step_users (step # steps) g =
     (if stop_event g then (Inr (), g)
      else (let users = min (step * step_users) (cfg_concurrent_users cfg)
            in if users \<le> 0 then ramp_up_loop cfg step_users steps g
               else (Inl undefined_max_thread_pool_size, g\<lparr>current_users := users\<rparr>)))"

definition error_statistics_dict :: "load_generator \<Rightarrow> py_value" where
  "error_statistics_dict g =
     PyDict (map (\<lambda>(k, v). (k, PyInt v)) (error_statistics g) @
             [(''error_details'', PyDict (map (\<lambda>(k, v). (k, PyInt v)) (error_details g)))])"

text \<open>
  \<open>_generate_ramp_up_load\<close>: the reset of the error statistics, the ramp loop, the stable
  phase (a load loop, hence a parameter) unless the stop event is set, and the returned
  dict.
\<close>

definition generate_ramp_up_load ::
  "test_config \<Rightarrow> load_phases \<Rightarrow> load_generator \<Rightarrow>
     (py_exception + (string \<times> py_value) list) \<times> load_generator" where
  "generate_ramp_up_load cfg ph g =
     (let g1 = reset_error_statistics g;
          step_users = (if ramp_up_steps cfg > 0
                        then cfg_concurrent_users cfg div ramp_up_steps cfg
                        else cfg_concurrent_users cfg)
      in case ramp_up_loop cfg step_users [0 .. ramp_up_steps cfg] g1 of
           (Inl e, g2) \<Rightarrow> (Inl e, g2)
         | (Inr u, g2) \<Rightarrow>
            (case (if \<not> stop_event g2
                   then (case ramp_up_stable_phase ph g2 of
                           (Inl e, g3) \<Rightarrow> (Inl e, g3)
                         | (Inr (stable_results, stable_step), g3) \<Rightarrow>
                             (Inr (stable_results, [stable_step]), g3))
                   else (Inr ([], []), g2)) of
               (Inl e, g3) \<Rightarrow> (Inl e, g3)
             | (Inr (results, step_results), g3) \<Rightarrow>
                 (let g4 = g3\<lparr>current_users := 0\<rparr>
                  in (Inr [(''test_type'', PyStr ''ramp_up''),
                          (''max_users'', PyInt (cfg_concurrent_users cfg)),
                          (''ramp_up_steps'', PyInt (ramp_up_steps cfg)),
                          (''ramp_up_time'', PyFloat (ramp_up_time cfg)),
                          (''stable_duration'', PyFloat (duration cfg)),
                          (''completed_tasks'', PyInt (completed_tasks g4)),
                          (''error_count'', PyInt (error_count g4)),
                          (''error_rate'',
                             PyFloat (if completed_tasks g4 > 0
                                      then real_of_int (error_count g4) / real_of_int (completed_tasks g4)
                                      else 0)),
                          (''error_statistics'', error_statistics_dict g4),
                          (''step_results'', PyList step_results),
                          (''results'', PyList results)], g4))))"

text \<open>The dispatch on \<open>test_type\<close> in \<open>generate_load\<close>.\<close>

definition run_test_type ::
  "test_config \<Rightarrow> load_phases \<Rightarrow> load_generator \<Rightarrow>
     (py_exception + (string \<times> py_value) list) \<times> load_generator" where
  "run_test_type cfg ph g =
     (if test_type cfg = ''concurrent'' then concurrent_load ph g
      else if test_type cfg = ''tps'' then tps_load ph g
      else if test_type cfg = ''qps'' then qps_load ph g
      else if test_type cfg = ''ramp_up'' then generate_ramp_up_load cfg ph g
      else if test_type cfg = ''stability'' then stability_load ph g
      else (Inl (unsupported_test_type (test_type cfg)), g))"

definition add_phase_results :: "load_generator \<Rightarrow> (string \<times> py_value) list \<Rightarrow> py_value" where
  \<comment> \<open>\<open>if test_result: test_result['before_tasks_completed'] = ...\<close>, then \<open>return test_result\<close>\<close>
  "add_phase_results g test_result =
     (if test_result \<noteq> []
      then PyDict (dict_set ''after_results'' (PyList (after_results g))
                  (dict_set ''before_results'' (PyList (before_results g))
                  (dict_set ''after_tasks_completed'' (PyBool (after_tasks_completed g))
                  (dict_set ''before_tasks_completed'' (PyBool (before_tasks_completed g))
                     test_result))))
      else PyDict test_result)"

definition stopped_result :: py_value where
  "stopped_result = PyDict [(''status'', PyStr ''stopped''), (''reason'', PyStr ''before_task_failed'')]"

definition load_and_after ::
  "test_config \<Rightarrow> load_phases \<Rightarrow> py_callable option \<Rightarrow> nat \<Rightarrow> load_generator \<Rightarrow>
     (py_exception + py_value) \<times> nat \<times> load_generator" where
  \<comment> \<open>The try block of \<open>generate_load\<close> from the test type dispatch on.\<close>
  "load_and_after cfg ph after_func na g =
     (case run_test_type cfg ph g of
        (Inl e, g1) \<Rightarrow> (Inl e, na, g1)
      | (Inr test_result, g1) \<Rightarrow>
          (case after_func of
             None \<Rightarrow> (Inr (add_phase_results g1 test_result), na, g1)
           | Some af \<Rightarrow>
               (case execute_after_tasks cfg af na g1 of
                  (Inl e, na', g2) \<Rightarrow> (Inl e, na', g2)
                | (Inr u, na', g2) \<Rightarrow> (Inr (add_phase_results g2 test_result), na', g2))))"

definition generate_load_try ::
  "test_config \<Rightarrow> load_phases \<Rightarrow> py_callable option \<Rightarrow> py_callable option \<Rightarrow> nat \<Rightarrow> nat \<Rightarrow>
     load_generator \<Rightarrow> (py_exception + py_value) \<times> nat \<times> nat \<times> load_generator" where
  \<comment> \<open>The try block of \<open>generate_load\<close>.\<close>
  "generate_load_try cfg ph before_func after_func nb na g =
     (case before_func of
        None \<Rightarrow> (case load_and_after cfg ph after_func na g of (r, na', g') \<Rightarrow> (r, nb, na', g'))
      | Some bf \<Rightarrow>
          (case execute_before_tasks cfg bf nb g of
             (Inl e, nb', g1) \<Rightarrow> (Inl e, nb', na, g1)
           | (Inr u, nb', g1) \<Rightarrow>
               if stop_event g1 then (Inr stopped_result, nb', na, g1)
               else (case load_and_after cfg ph after_func na g1 of
                       (r, na', g') \<Rightarrow> (r, nb', na', g'))))"

definition run_start :: "load_generator \<Rightarrow> load_generator" where
  \<comment> \<open>The assignments that open \<open>generate_load\<close>.\<close>
  "run_start g = g\<lparr>running := True, stop_event := False, completed_tasks := 0,
                   before_tasks_completed := False, after_tasks_completed := False,
                   before_results := [], after_results := []\<rparr>"

text \<open>
  \<open>generate_load\<close>: the try block and then the finally block, which runs the after tasks
  if they were not completed, an after function was given and the stop event is not set,
  and swallows what they raise.  The result is the returned value or the exception that
  escapes, the numbers of calls made of the before and of the after function, and the
  generator.
\<close>

definition generate_load ::
  "test_config \<Rightarrow> load_phases \<Rightarrow> py_callable option \<Rightarrow> py_callable option \<Rightarrow> nat \<Rightarrow> nat \<Rightarrow>
     load_generator \<Rightarrow> (py_exception + py_value) \<times> nat \<times> nat \<times> load_generator" where
  "generate_load cfg ph before_func after_func nb na g =
     (let g0 = run_start g
      in case generate_load_try cfg ph before_func after_func nb na g0 of
           (r, nb', na', g1) \<Rightarrow>
             (case after_func of
                None \<Rightarrow> (r, nb', na', g1\<lparr>running := False\<rparr>)
              | Some af \<Rightarrow>
                  if \<not> after_tasks_completed g1 \<and> \<not> stop_event g1
                  then (case execute_after_tasks cfg af na' g1 of
                          (u, na'', g2) \<Rightarrow> (r, nb', na'', g2\<lparr>running := False\<rparr>))
                  else (r, nb', na', g1\<lparr>running := False\<rparr>)))"

text \<open>
  \<open>k\<close> direct calls of \<open>_execute_with_retry\<close> one after the other on one generator.
  (A load loop does more between two such calls: it reads the result, and after a
  \<open>None\<close> result it calls \<open>_record_error\<close> once more.)
\<close>

fun execute_tasks ::
  "py_callable \<Rightarrow> nat \<Rightarrow> nat \<Rightarrow> load_generator \<Rightarrow> py_value list \<times> nat \<times> load_generator" where
  "execute_tasks task_func 0 n g = ([], n, g)"
| "execute_tasks task_func (Suc k) n g =
     (case execute_with_retry task_func n g of
        (result, n', g') \<Rightarrow>
          (case execute_tasks task_func k n' g' of
             (results, n'', g'') \<Rightarrow> (result # results, n'', g'')))"

section \<open>Auxiliary definitions for the statements and their instances\<close>

definition pct_pos :: "nat \<Rightarrow> real \<Rightarrow> nat" where
  "pct_pos n p = min (nat \<lfloor>real n * p / 100\<rfloor>) (n - 1)"

definition no_request_recorded :: "metrics_collector \<Rightarrow> bool" where
  "no_request_recorded m =
     (mc_requests m = [] \<and> total_requests m = 0 \<and> successful_requests m = 0 \<and>
      failed_requests m = 0 \<and> response_times m = [] \<and> throughput_data m = [] \<and>
      latency_samples m = [] \<and> total_connections m = 0)"

definition ok_request :: "real \<Rightarrow> real \<Rightarrow> request_args" where
  "ok_request t rt =
     \<lparr>start_time = t, end_time = t + rt, response_time = rt, status_code = Some 200,
      success = True, error = None, additional_data = None, latency_breakdown = None,
      connection_info = None\<rparr>"

definition too_many_redirects :: py_exception where
  "too_many_redirects =
     \<lparr>exc_class_name = ''TooManyRedirects'',
      exc_isinstance = [''requests.exceptions.TooManyRedirects'',
                        ''requests.exceptions.RequestException'', ''OSError'', ''Exception''],
      exc_str = ''Exceeded 30 redirects.''\<rparr>"

definition invalid_request :: py_exception where
  "invalid_request =
     \<lparr>exc_class_name = ''ValueError'', exc_isinstance = [''ValueError'', ''Exception''],
      exc_str = ''Invalid request''\<rparr>"

definition always_fails :: py_callable where
  "always_fails = (\<lambda>n. \<lparr>calls_stop = False, outcome = Raises invalid_request\<rparr>)"

definition retry_cfg :: "int \<Rightarrow> test_config" where
  "retry_cfg r =
     \<lparr>test_type = ''concurrent'', max_retries = r, retry_delay = 1 / 10,
      retryable_errors = [''timeout'', ''connection_error''], stop_on_error = False,
      before_concurrent = 1, after_concurrent = 1, max_thread_pool_size = 0,
      cfg_concurrent_users = 1, ramp_up_steps = 1, ramp_up_time = 0, duration = 1\<rparr>"

definition timed_out :: py_exception where
  "timed_out =
     \<lparr>exc_class_name = ''timeout'', exc_isinstance = [''socket.timeout'', ''OSError'', ''Exception''],
      exc_str = ''timed out''\<rparr>"

definition always_none :: py_callable where
  "always_none = (\<lambda>n. \<lparr>calls_stop = False, outcome = Returns PyNone\<rparr>)"

definition flaky_before :: py_callable where
  \<comment> \<open>Returns, except that its second call times out.\<close>
  "flaky_before =
     (\<lambda>n. if n = 1 then \<lparr>calls_stop = False, outcome = Raises timed_out\<rparr>
          else \<lparr>calls_stop = False, outcome = Returns PyNone\<rparr>)"



definition ramp_up_cfg :: test_config where
  "ramp_up_cfg = (retry_cfg 0)\<lparr>test_type := ''ramp_up''\<rparr>"


definition should_retry :: "retry_config \<Rightarrow> py_exception \<Rightarrow> bool" where
  \<comment> \<open>The value of \<open>should_retry\<close> in \<open>_execute_with_retry\<close> for an exception.\<close>
  "should_retry rc e =
     (classify_error_type e \<in> set (rc_retryable_errors rc) \<or>
      classify_error_type e = ''timeout'' \<or> isinstance e ''socket.timeout'')"








section \<open>Properties of the metrics collector\<close>

lemma record_request_counters:
  "total_requests (record_request a m) = total_requests m + 1 \<and>
   successful_requests (record_request a m) = successful_requests m + (if success a then 1 else 0) \<and>
   failed_requests (record_request a m) = failed_requests m + (if success a then 0 else 1)"
  by (simp add: record_request_def Let_def record_outcome_counters_def record_connection_def
      split: option.splits)

lemma record_request_invariant:
  assumes "total_requests m = successful_requests m + failed_requests m"
  shows "total_requests (record_request a m) =
         successful_requests (record_request a m) + failed_requests (record_request a m)"
  using assms record_request_counters [of a m] by simp

lemma record_all_invariant:
  "total_requests m = successful_requests m + failed_requests m \<Longrightarrow>
   total_requests (record_all m reqs) =
     successful_requests (record_all m reqs) + failed_requests (record_all m reqs)"
  unfolding record_all_def
  by (induction reqs arbitrary: m) (simp_all add: record_request_invariant)

text \<open>
  Claim C4.  For every sequence of outcomes recorded into a fresh collector, the counter
  \<open>total_requests\<close> equals \<open>successful_requests\<close> plus \<open>failed_requests\<close>.  The sequence
  is arbitrary, so the equality holds after each single \<open>record_request\<close> call (every prefix
  of a sequence is a sequence) and at the end of the run.
\<close>

theorem record_request_total_eq_success_plus_failure:
  "total_requests (record_all (MetricsCollector_init now) reqs) =
     successful_requests (record_all (MetricsCollector_init now) reqs) +
     failed_requests (record_all (MetricsCollector_init now) reqs)"
  by (rule record_all_invariant) (simp add: MetricsCollector_init_def)

lemma py_index_in_range:
  "0 \<le> i \<Longrightarrow> i < int (length xs) \<Longrightarrow> py_index xs i = Some (xs ! nat i)"
  by (simp add: py_index_def)

lemma calculate_percentile_nth:
  assumes "xs \<noteq> []" and "0 \<le> p"
  shows "calculate_percentile xs p = Some (xs ! pct_pos (length xs) p)"
proof -
  let ?n = "length xs"
  let ?i = "py_int (real ?n * p / 100)"
  have i_floor: "?i = \<lfloor>real ?n * p / 100\<rfloor>" and i_nonneg: "0 \<le> ?i"
    using assms by (simp_all add: py_int_def)
  have n_pos: "0 < ?n" using assms by simp
  show ?thesis
  proof (cases "?i \<ge> int ?n")
    case True
    then have "pct_pos ?n p = ?n - 1"
      using i_floor by (simp add: pct_pos_def min_def) linarith
    moreover have "calculate_percentile xs p = py_index xs (int ?n - 1)"
      using True assms by (simp add: calculate_percentile_def Let_def)
    moreover have "py_index xs (int ?n - 1) = Some (xs ! nat (int ?n - 1))"
      using n_pos by (intro py_index_in_range) simp_all
    moreover have "nat (int ?n - 1) = ?n - 1" by simp
    ultimately show ?thesis by simp
  next
    case False
    then have "pct_pos ?n p = nat ?i"
      using i_floor i_nonneg by (simp add: pct_pos_def min_def)
    moreover have "calculate_percentile xs p = py_index xs ?i"
      using False assms by (simp add: calculate_percentile_def Let_def)
    moreover have "py_index xs ?i = Some (xs ! nat ?i)"
      using False i_nonneg by (intro py_index_in_range) simp_all
    ultimately show ?thesis by simp
  qed
qed

lemma pct_pos_less: "0 < n \<Longrightarrow> pct_pos n p < n"
  unfolding pct_pos_def by (rule le_less_trans [OF min.cobounded2]) simp

lemma pct_pos_mono: "p \<le> q \<Longrightarrow> pct_pos n p \<le> pct_pos n q"
proof -
  assume "p \<le> q"
  then have "real n * p / 100 \<le> real n * q / 100"
    by (simp add: mult_left_mono divide_right_mono)
  then have "nat \<lfloor>real n * p / 100\<rfloor> \<le> nat \<lfloor>real n * q / 100\<rfloor>"
    by (intro nat_mono floor_mono)
  then show ?thesis by (simp add: pct_pos_def min_def)
qed

lemma sorted_percentile_le:
  assumes "sorted xs" "xs \<noteq> []" "p \<le> q"
  shows "xs ! pct_pos (length xs) p \<le> xs ! pct_pos (length xs) q"
  using assms by (intro sorted_nth_mono pct_pos_mono pct_pos_less) simp_all

lemma percentile_le_Max:
  assumes "xs \<noteq> []"
  shows "xs ! pct_pos (length xs) p \<le> Max (set xs)"
  using assms by (intro Max_ge) (simp_all add: pct_pos_less)

lemma sort_nonempty: "xs \<noteq> [] \<Longrightarrow> sort xs \<noteq> []"
  by (metis length_sort length_0_conv)

lemma py_min_Some: "xs \<noteq> [] \<Longrightarrow> py_min xs = Some (Min (set xs))"
  by (simp add: py_min_def)

lemma py_max_Some: "xs \<noteq> [] \<Longrightarrow> py_max xs = Some (Max (set xs))"
  by (simp add: py_max_def)

lemma py_truediv_Some: "b \<noteq> 0 \<Longrightarrow> py_truediv a b = Some (a / b)"
  by (simp add: py_truediv_def)

lemma summary_response_times_nonempty:
  assumes "rts \<noteq> []"
  shows "summary_response_times rts =
    Some \<lparr>rs_avg = sum_list rts / real (length rts), rs_min = Min (set rts),
          rs_max = Max (set rts),
          rs_p50 = rts ! pct_pos (length rts) 50, rs_p90 = rts ! pct_pos (length rts) 90,
          rs_p95 = rts ! pct_pos (length rts) 95, rs_p99 = rts ! pct_pos (length rts) 99,
          rs_p999 = rts ! pct_pos (length rts) (999 / 10),
          rs_std_dev = sqrt (sum_list (map (\<lambda>x. (x - sum_list rts / real (length rts)) ^ 2) rts)
                             / real (length rts))\<rparr>"
  using assms
  by (simp add: summary_response_times_def py_min_Some py_max_Some py_truediv_Some
      calculate_percentile_nth Let_def)

lemma summary_response_times_total: "\<exists>rs. summary_response_times rts = Some rs"
  by (cases "rts = []") (simp_all add: summary_response_times_nonempty, simp add: summary_response_times_def)

lemma summary_response_times_monotone:
  assumes "sorted rts" and "summary_response_times rts = Some rs"
  shows "rs_p50 rs \<le> rs_p90 rs \<and> rs_p90 rs \<le> rs_p95 rs \<and> rs_p95 rs \<le> rs_p99 rs \<and>
         rs_p99 rs \<le> rs_p999 rs \<and> rs_p999 rs \<le> rs_max rs"
proof (cases "rts = []")
  case True
  with assms(2) show ?thesis by (auto simp: summary_response_times_def)
next
  case False
  have "rts ! pct_pos (length rts) 50 \<le> rts ! pct_pos (length rts) 90"
       "rts ! pct_pos (length rts) 90 \<le> rts ! pct_pos (length rts) 95"
       "rts ! pct_pos (length rts) 95 \<le> rts ! pct_pos (length rts) 99"
       "rts ! pct_pos (length rts) 99 \<le> rts ! pct_pos (length rts) (999 / 10)"
    using assms(1) False by (simp_all add: sorted_percentile_le)
  moreover have "rts ! pct_pos (length rts) (999 / 10) \<le> Max (set rts)"
    using False by (rule percentile_le_Max)
  ultimately show ?thesis
    using assms(2) False by (auto simp: summary_response_times_nonempty)
qed

lemma calculate_test_duration_total: "\<exists>d. calculate_test_duration m = Some d"
  by (simp add: calculate_test_duration_def py_min_Some py_max_Some split: option.splits)

lemma dd_update_nonempty: "dd_update k d f kvs \<noteq> []"
  by (cases kvs) (auto split: if_splits)

lemma fold_dd_inc_nonempty:
  "acc \<noteq> [] \<Longrightarrow> fold (\<lambda>dp a. dd_inc (g dp) a) tds acc \<noteq> []"
  by (induction tds arbitrary: acc) (simp_all add: dd_inc_def dd_update_nonempty)

lemma per_second_counts_nonempty: "tds \<noteq> [] \<Longrightarrow> per_second_counts tds \<noteq> []"
  unfolding per_second_counts_def
  by (cases tds) (simp_all add: fold_dd_inc_nonempty dd_inc_def dd_update_nonempty)

lemma per_second_counts_Nil [simp]: "per_second_counts [] = []"
  by (simp add: per_second_counts_def)

lemma calculate_throughput_variation_total:
  "\<exists>v. calculate_throughput_variation m = Some v"
proof (cases "length (throughput_data m) < 2")
  case True
  then show ?thesis by (simp add: calculate_throughput_variation_def)
next
  case False
  then have "throughput_data m \<noteq> []" by auto
  then have "per_second_counts (throughput_data m) \<noteq> []"
    by (rule per_second_counts_nonempty)
  with False show ?thesis
    by (simp add: calculate_throughput_variation_def Let_def py_truediv_Some)
qed

lemma max_and_avg_total: "\<exists>mx av. max_and_avg d = Some (mx, av)"
  by (cases "d = []") (simp_all add: max_and_avg_def py_max_Some py_truediv_Some Let_def)

lemma max_and_avg_Nil [simp]: "max_and_avg [] = Some (0, 0)"
  by (simp add: max_and_avg_def)

lemma summary_second_stats_total: "\<exists>ss. summary_second_stats tds = Some ss"
proof -
  obtain a b where 1: "max_and_avg (per_second_counts (filter tp_success tds)) = Some (a, b)"
    using max_and_avg_total by blast
  obtain c d where 2: "max_and_avg (per_second_counts (filter (\<lambda>dp. \<not> tp_success dp) tds)) = Some (c, d)"
    using max_and_avg_total by blast
  show ?thesis
  proof (cases "per_second_counts tds = []")
    case True
    then show ?thesis by (simp add: summary_second_stats_def Let_def 1 2)
  next
    case False
    then have "map real_of_int (sort (map snd (per_second_counts tds))) \<noteq> []"
      by (simp add: sort_nonempty)
    then show ?thesis
      using False
      by (simp add: summary_second_stats_def Let_def 1 2 py_max_Some py_min_Some
          py_truediv_Some calculate_percentile_nth)
  qed
qed

lemma latency_stat_of_total: "\<exists>st. latency_stat_of latencies = Some st"
  by (cases "latencies = []")
     (simp_all add: latency_stat_of_def py_max_Some py_min_Some py_truediv_Some
        calculate_percentile_nth sort_nonempty)

lemma summary_latency_stats_total: "\<exists>sts. summary_latency_stats samples = Some sts"
proof (induction samples)
  case Nil
  then show ?case by simp
next
  case (Cons a samples)
  obtain k v where a: "a = (k, v)" by (cases a)
  obtain st where "latency_stat_of v = Some st" using latency_stat_of_total by blast
  with Cons a show ?case by auto
qed

lemma summary_connection_metrics_total: "\<exists>cm. summary_connection_metrics m = Some cm"
  by (simp add: summary_connection_metrics_def py_truediv_Some)

lemma get_summary_metrics_total:
  "\<exists>r. get_summary_metrics m = Some (r, m\<lparr>response_times := sort (response_times m)\<rparr>) \<and>
       (\<exists>rs. summary_response_times (sort (response_times m)) = Some rs \<and>
             p50_response_time r = rs_p50 rs \<and> p90_response_time r = rs_p90 rs \<and>
             p95_response_time r = rs_p95 rs \<and> p99_response_time r = rs_p99 rs \<and>
             p999_response_time r = rs_p999 rs \<and> max_response_time r = rs_max rs)"
proof -
  let ?m' = "m\<lparr>response_times := sort (response_times m)\<rparr>"
  obtain d where d: "calculate_test_duration m = Some d"
    using calculate_test_duration_total by blast
  obtain rs where rs: "summary_response_times (sort (response_times m)) = Some rs"
    using summary_response_times_total by blast
  obtain v where v: "calculate_throughput_variation ?m' = Some v"
    using calculate_throughput_variation_total by blast
  obtain ss where ss: "summary_second_stats (throughput_data m) = Some ss"
    using summary_second_stats_total by blast
  obtain ls where ls: "summary_latency_stats (latency_samples m) = Some ls"
    using summary_latency_stats_total by blast
  obtain cm where cm: "summary_connection_metrics ?m' = Some cm"
    using summary_connection_metrics_total by blast
  show ?thesis
    using d rs v ss ls cm
    by (simp add: get_summary_metrics_def Let_def py_truediv_Some)
qed

text \<open>
  Claim C8.  Whatever response-time samples the collector holds, \<open>get_summary_metrics\<close>
  returns a summary, and its percentiles are monotone:
  p50 \<open>\<le>\<close> p90 \<open>\<le>\<close> p95 \<open>\<le>\<close> p99 \<open>\<le>\<close> p99.9 \<open>\<le>\<close> \<open>max_response_time\<close>.
\<close>

theorem summary_percentiles_monotone:
  "\<exists>r m'. get_summary_metrics m = Some (r, m') \<and>
      p50_response_time r \<le> p90_response_time r \<and>
      p90_response_time r \<le> p95_response_time r \<and>
      p95_response_time r \<le> p99_response_time r \<and>
      p99_response_time r \<le> p999_response_time r \<and>
      p999_response_time r \<le> max_response_time r"
proof -
  obtain r rs where r: "get_summary_metrics m = Some (r, m\<lparr>response_times := sort (response_times m)\<rparr>)"
    and rs: "summary_response_times (sort (response_times m)) = Some rs"
    and eqs: "p50_response_time r = rs_p50 rs" "p90_response_time r = rs_p90 rs"
             "p95_response_time r = rs_p95 rs" "p99_response_time r = rs_p99 rs"
             "p999_response_time r = rs_p999 rs" "max_response_time r = rs_max rs"
    using get_summary_metrics_total [of m] by blast
  have "sorted (sort (response_times m))" by simp
  from summary_response_times_monotone [OF this rs] r eqs show ?thesis by auto
qed

lemma no_request_recorded_init: "no_request_recorded (MetricsCollector_init now)"
  by (simp add: no_request_recorded_def MetricsCollector_init_def)

lemma no_request_recorded_update_concurrent_users:
  "no_request_recorded m \<Longrightarrow> no_request_recorded (update_concurrent_users n m)"
  by (simp add: no_request_recorded_def update_concurrent_users_def)

lemma no_request_recorded_finalize:
  "no_request_recorded m \<Longrightarrow> no_request_recorded (finalize t m)"
  by (simp add: no_request_recorded_def finalize_def)

lemma summary_second_stats_Nil:
  "summary_second_stats [] =
     Some \<lparr>ss_max_rps = 0, ss_min_rps = 0, ss_avg_second_rps = 0, ss_p95_rps = 0,
           ss_max_success_rps = 0, ss_avg_success_rps = 0, ss_max_failed_rps = 0,
           ss_avg_failed_rps = 0\<rparr>"
  by (simp add: summary_second_stats_def)

text \<open>
  Claim C9.  When no request was recorded, \<open>get_summary_metrics\<close> returns a summary, so
  no division by zero occurs in it, and leaves the collector as it was; in the summary
  \<open>total_requests\<close>, the success rate, every RPS value, the throughput variation and every
  percentile are 0, and there are no latency statistics.  (The share of successful
  connections, which the claim does not list, is 100 when no connection was recorded.)
\<close>

theorem zero_task_summary:
  assumes "no_request_recorded m"
  shows "\<exists>r. get_summary_metrics m = Some (r, m) \<and>
     sm_total_requests r = 0 \<and> sm_successful_requests r = 0 \<and> sm_failed_requests r = 0 \<and>
     success_rate r = 0 \<and> test_duration r = 0 \<and>
     rps r = 0 \<and> successful_rps r = 0 \<and> failed_rps r = 0 \<and>
     max_rps r = 0 \<and> min_rps r = 0 \<and> avg_second_rps r = 0 \<and> p95_rps r = 0 \<and>
     max_success_rps r = 0 \<and> avg_success_rps r = 0 \<and>
     max_failed_rps r = 0 \<and> avg_failed_rps r = 0 \<and> throughput_variation r = 0 \<and>
     p50_response_time r = 0 \<and> p90_response_time r = 0 \<and> p95_response_time r = 0 \<and>
     p99_response_time r = 0 \<and> p999_response_time r = 0 \<and>
     latency_stats r = [] \<and>
     connection_success_rate (connection_metrics r) = 100"
  using assms
  by (simp add: no_request_recorded_def get_summary_metrics_def calculate_test_duration_def
      summary_response_times_def calculate_throughput_variation_def summary_second_stats_Nil
      summary_connection_metrics_def)

text \<open>The hypothesis of C9 holds of a fresh collector.\<close>

theorem zero_task_summary_witness:
  "no_request_recorded (MetricsCollector_init 0) \<and>
   (\<exists>r. get_summary_metrics (MetricsCollector_init 0) = Some (r, MetricsCollector_init 0) \<and>
        sm_total_requests r = 0 \<and> rps r = 0 \<and> p50_response_time r = 0 \<and>
        connection_success_rate (connection_metrics r) = 100)"
  using zero_task_summary [OF no_request_recorded_init [of 0]]
  by (auto simp: no_request_recorded_init)

lemma calculate_test_duration_response_times [simp]:
  "calculate_test_duration (m\<lparr>response_times := x\<rparr>) = calculate_test_duration m"
  by (simp add: calculate_test_duration_def split: option.splits)

lemma calculate_throughput_variation_response_times [simp]:
  "calculate_throughput_variation (m\<lparr>response_times := x\<rparr>) = calculate_throughput_variation m"
  by (simp add: calculate_throughput_variation_def)

lemma summary_connection_metrics_response_times [simp]:
  "summary_connection_metrics (m\<lparr>response_times := x\<rparr>) = summary_connection_metrics m"
  by (simp add: summary_connection_metrics_def)

lemma sort_sort: "sort (sort xs) = sort (xs :: 'a::linorder list)"
  by (simp add: sort_key_id_if_sorted)

lemma get_summary_metrics_idempotent:
  "get_summary_metrics (m\<lparr>response_times := sort (response_times m)\<rparr>) = get_summary_metrics m"
  by (simp add: get_summary_metrics_def sort_sort Let_def)

lemma get_summary_metrics_twice:
  assumes "get_summary_metrics m = Some (r, m')"
  shows "get_summary_metrics m' = Some (r, m')"
proof -
  from get_summary_metrics_total [of m] assms
  have "m' = m\<lparr>response_times := sort (response_times m)\<rparr>" by auto
  with assms get_summary_metrics_idempotent [of m] show ?thesis by simp
qed

lemma tx_summary_of_sorts_in_place:
  "tx_summary_of tx_data = Some (s, d) \<Longrightarrow>
   d = tx_data\<lparr>tx_response_times := sort (tx_response_times tx_data)\<rparr>"
  by (cases "tx_response_times tx_data = []")
     (auto simp: tx_summary_of_def Let_def split: if_splits Option.bind_splits)

text \<open>
  Claim C6 at a failing input.  After two successful requests with response times 2 and 1
  the collector holds the samples \<open>[2, 1]\<close>; \<open>get_summary_metrics\<close> leaves it holding
  \<open>[1, 2]\<close>: the snapshot sorts the collector's own list, as \<open>_get_transaction_metrics\<close>
  sorts the list of each transaction (\<open>tx_summary_of_sorts_in_place\<close>).  A second snapshot
  returns the same result (\<open>get_summary_metrics_twice\<close>).
\<close>

theorem get_summary_metrics_sorts_in_place:
  "response_times (record_all (MetricsCollector_init 0) [ok_request 0 2, ok_request 0 1]) = [2, 1] \<and>
   map_option (\<lambda>(r, m'). response_times m')
     (get_summary_metrics (record_all (MetricsCollector_init 0) [ok_request 0 2, ok_request 0 1]))
   = Some [1, 2]"
proof -
  let ?m = "record_all (MetricsCollector_init 0) [ok_request 0 2, ok_request 0 1]"
  have rt: "response_times ?m = [2, 1]"
    by (simp add: record_all_def record_request_def MetricsCollector_init_def ok_request_def
        record_outcome_counters_def record_connection_def Let_def)
  obtain r where "get_summary_metrics ?m = Some (r, ?m\<lparr>response_times := sort (response_times ?m)\<rparr>)"
    using get_summary_metrics_total [of ?m] by blast
  then have "map_option (\<lambda>(r, m'). response_times m') (get_summary_metrics ?m)
             = Some (sort (response_times ?m))" by simp
  with rt show ?thesis by simp
qed

section \<open>Properties of the load generator\<close>

text \<open>
  Claim C5 as stated fails: a \<open>requests\<close> exception that is neither a timeout, a connection
  error nor an HTTP error (here \<open>TooManyRedirects\<close>) is classified \<open>request_error\<close>, which
  is not one of the seven kinds of the closed set.
\<close>

theorem classify_request_exception:
  "classify_error_type too_many_redirects = ''request_error'' \<and>
   ''request_error'' \<notin> {''timeout'', ''connection_error'', ''http_error'', ''assertion_error'',
                          ''validation_error'', ''system_error'', ''other_error''}"
  by (simp add: classify_error_type_def too_many_redirects_def isinstance_def py_lower_def
      lower_char_def Let_def)

text \<open>
  Claim C5, as amended.  The classifier is total and returns exactly one of the six tags
  \<open>assertion_error\<close>, \<open>timeout\<close>, \<open>connection_error\<close>, \<open>http_error\<close>, \<open>request_error\<close>,
  \<open>other_error\<close>.
\<close>

theorem classify_error_type_closed:
  "classify_error_type e \<in> {''assertion_error'', ''timeout'', ''connection_error'',
                             ''http_error'', ''request_error'', ''other_error''}"
  by (simp add: classify_error_type_def Let_def)

lemma classify_invalid_request: "classify_error_type invalid_request = ''other_error''"
  by (simp add: classify_error_type_def invalid_request_def isinstance_def py_lower_def
      lower_char_def Let_def)

lemma stop_fields [simp]:
  "consecutive_errors (stop g) = consecutive_errors g"
  "consecutive_error_count (stop g) = consecutive_error_count g"
  "error_details (stop g) = error_details g"
  "before_results (stop g) = before_results g"
  "retry_config (stop g) = retry_config g"
  "stop_event (stop g) = True"
  by (simp_all add: stop_def)

lemma record_error_fields [simp]:
  "consecutive_errors (record_error t msg g) = consecutive_errors g + 1"
  "consecutive_error_count (record_error t msg g) = consecutive_errors g + 1"
  "before_results (record_error t msg g) = before_results g"
  "retry_config (record_error t msg g) = retry_config g"
  "error_details (record_error t msg g) = dd_inc msg (error_details g)"
  by (simp_all add: record_error_def Let_def)

lemma dd_update_keys: "fst ` set (dd_update k d f kvs) = insert k (fst ` set kvs)"
  by (induction k d f kvs rule: dd_update.induct) (auto split: if_splits)

lemma dd_inc_keys: "fst ` set (dd_inc k kvs) = insert k (fst ` set kvs)"
  by (simp add: dd_inc_def dd_update_keys)

lemma dict_with_success_not_None: "dict_with_success v \<Longrightarrow> v \<noteq> PyNone"
  by (cases v) simp_all

lemma retry_loop_result:
  "retry_loop f n a (Suc k) g = (v, n', g') \<Longrightarrow>
     n < n' \<and> n' \<le> n + Suc k \<and>
     (v = PyNone \<longleftrightarrow> (\<exists>e. outcome (f (n' - 1)) = Raises e)) \<and>
     (\<forall>e. outcome (f (n' - 1)) = Raises e \<longrightarrow> exc_str e \<in> fst ` set (error_details g'))"
proof (induction k arbitrary: n a g)
  case 0
  then show ?case
    by (cases "outcome (f n)")
       (auto simp: Let_def dict_with_success_not_None dd_inc_keys split: if_splits)
next
  case (Suc k)
  show ?case
  proof (cases "outcome (f n)")
    case (Returns result)
    from Suc.prems have "n' = Suc n" and v: "v \<noteq> PyNone"
      by (subst (asm) retry_loop.simps(2),
          auto simp add: Returns Let_def dict_with_success_not_None
            simp del: retry_loop.simps split: if_splits)+
    with Returns show ?thesis by simp
  next
    case (Raises e)
    let ?g0 = "if calls_stop (f n) then stop g else g"
    let ?g1 = "record_error (classify_error_type e) (exc_str e) ?g0"
    let ?g3 = "?g1\<lparr>consecutive_error_count := consecutive_error_count ?g1 + 1,
                    consecutive_errors := consecutive_error_count ?g1 + 1\<rparr>"
    let ?retry = "(classify_error_type e \<in> set (rc_retryable_errors (retry_config g)) \<or>
                   classify_error_type e = ''timeout'' \<or> isinstance e ''socket.timeout'') \<and>
                  int a < rc_max_retries (retry_config g)"
    show ?thesis
    proof (cases ?retry)
      case True
      from Suc.prems have
        "retry_loop f (Suc n) (Suc a) (Suc k)
           (?g3\<lparr>sleeps := sleeps ?g3 @ [rc_retry_delay (retry_config g) * 2 ^ a]\<rparr>) = (v, n', g')"
        by (subst (asm) retry_loop.simps(2))
           (use Raises True in \<open>simp add: Let_def del: retry_loop.simps split: if_splits\<close>)
      from Suc.IH [OF this] show ?thesis by auto
    next
      case False
      from Suc.prems have "n' = Suc n" "v = PyNone" "exc_str e \<in> fst ` set (error_details g')"
        by (subst (asm) retry_loop.simps(2),
            use Raises False in \<open>auto simp add: Let_def dd_inc_keys
              simp del: retry_loop.simps split: if_splits\<close>)+
      with Raises show ?thesis by simp
    qed
  qed
qed

text \<open>
  With a retry budget of at least 0, \<open>_execute_with_retry\<close> calls the task at least once
  and returns \<open>None\<close> exactly when the last call it made raised.
\<close>

lemma execute_with_retry_None_iff:
  assumes "0 \<le> rc_max_retries (retry_config g)"
    and "execute_with_retry f n g = (v, n', g')"
  shows "n < n' \<and>
         (v = PyNone \<longleftrightarrow> (\<exists>e. outcome (f (n' - 1)) = Raises e)) \<and>
         (\<forall>e. outcome (f (n' - 1)) = Raises e \<longrightarrow> exc_str e \<in> fst ` set (error_details g'))"
proof -
  from assms(1) obtain k where k: "nat (rc_max_retries (retry_config g) + 1) = Suc k"
    by (cases "nat (rc_max_retries (retry_config g) + 1)") auto
  from assms(2) have
    "retry_loop f n 0 (Suc k) (g\<lparr>consecutive_error_count := 0, consecutive_errors := 0\<rparr>) = (v, n', g')"
    by (simp add: execute_with_retry_def k)
  from retry_loop_result [OF this] show ?thesis by simp
qed

lemma invalid_request_not_socket_timeout: "\<not> isinstance invalid_request ''socket.timeout''"
  by (simp add: isinstance_def invalid_request_def)


lemma retry_loop_counter:
  "retry_loop f n a k g = (v, n', g') \<Longrightarrow>
   0 \<le> consecutive_errors g \<Longrightarrow>
   consecutive_error_count g = consecutive_errors g \<Longrightarrow>
     consecutive_error_count g' = consecutive_errors g' \<and>
     (v \<noteq> PyNone \<longrightarrow> consecutive_errors g' = 0) \<and>
     (v = PyNone \<longrightarrow> consecutive_errors g \<le> consecutive_errors g') \<and>
     (v = PyNone \<and> 0 < k \<longrightarrow> 0 < consecutive_errors g')"
proof (induction k arbitrary: n a g)
  case 0
  then show ?case by simp
next
  case (Suc k)
  show ?case
  proof (cases "outcome (f n)")
    case (Returns result)
    from Suc.prems(1) have "v \<noteq> PyNone" "consecutive_errors g' = 0" "consecutive_error_count g' = 0"
      by (subst (asm) retry_loop.simps(2),
          auto simp add: Returns Let_def dict_with_success_not_None
            simp del: retry_loop.simps split: if_splits)+
    then show ?thesis by simp
  next
    case (Raises e)
    let ?g0 = "if calls_stop (f n) then stop g else g"
    let ?g1 = "record_error (classify_error_type e) (exc_str e) ?g0"
    let ?g3 = "?g1\<lparr>consecutive_error_count := consecutive_error_count ?g1 + 1,
                    consecutive_errors := consecutive_error_count ?g1 + 1\<rparr>"
    let ?retry = "(classify_error_type e \<in> set (rc_retryable_errors (retry_config g)) \<or>
                   classify_error_type e = ''timeout'' \<or> isinstance e ''socket.timeout'') \<and>
                  int a < rc_max_retries (retry_config g)"
    have g3: "consecutive_errors ?g3 = consecutive_errors g + 2"
             "consecutive_error_count ?g3 = consecutive_errors g + 2"
      by simp_all
    show ?thesis
    proof (cases ?retry)
      case True
      let ?g4 = "?g3\<lparr>sleeps := sleeps ?g3 @ [rc_retry_delay (retry_config g) * 2 ^ a]\<rparr>"
      from Suc.prems(1) have rec: "retry_loop f (Suc n) (Suc a) k ?g4 = (v, n', g')"
        by (subst (asm) retry_loop.simps(2))
           (use Raises True in \<open>simp add: Let_def del: retry_loop.simps split: if_splits\<close>)
      have "0 \<le> consecutive_errors ?g4" "consecutive_error_count ?g4 = consecutive_errors ?g4"
        using Suc.prems(2) g3 by simp_all
      from Suc.IH [OF rec this] g3 Suc.prems(2) show ?thesis by auto
    next
      case False
      from Suc.prems(1) have "v = PyNone" "g' = ?g3"
        by (subst (asm) retry_loop.simps(2),
            use Raises False in \<open>auto simp add: Let_def
              simp del: retry_loop.simps split: if_splits\<close>)+
      with g3 Suc.prems(2) show ?thesis by simp
    qed
  qed
qed

lemma execute_with_retry_forgets_counter:
  "execute_with_retry f n (g\<lparr>consecutive_errors := c, consecutive_error_count := c'\<rparr>) =
   execute_with_retry f n g"
  by (simp add: execute_with_retry_def)

text \<open>
  Claim C7, as amended.  After every \<open>_execute_with_retry\<close> call the two copies of the
  consecutive-error counter agree; the counter is 0 when the call succeeded and positive
  when it failed (retry budget at least 0); and the call gives the same result and leaves
  the same generator whatever the counter was before: the counter is set to 0 when the call
  starts, so it counts failed attempts of the current task only, not the failures since the
  most recent success.
\<close>

theorem consecutive_errors_after_execute_with_retry:
  assumes "execute_with_retry f n g = (v, n', g')"
  shows "consecutive_error_count g' = consecutive_errors g' \<and>
         (v \<noteq> PyNone \<longrightarrow> consecutive_errors g' = 0) \<and>
         (v = PyNone \<and> 0 \<le> rc_max_retries (retry_config g) \<longrightarrow> 0 < consecutive_errors g') \<and>
         execute_with_retry f n (g\<lparr>consecutive_errors := c, consecutive_error_count := c'\<rparr>)
           = (v, n', g')"
proof -
  let ?g = "g\<lparr>consecutive_error_count := 0, consecutive_errors := 0\<rparr>"
  from assms have
    loop: "retry_loop f n 0 (nat (rc_max_retries (retry_config g) + 1)) ?g = (v, n', g')"
    by (simp add: execute_with_retry_def)
  have "0 \<le> consecutive_errors ?g" "consecutive_error_count ?g = consecutive_errors ?g"
    by simp_all
  from retry_loop_counter [OF loop this] assms show ?thesis
    by (auto simp: execute_with_retry_forgets_counter)
qed

text \<open>
  Claim C7 as stated fails: after three task executions that each fail at their single
  attempt (no success in between) the counter is 2, not 3.
\<close>

theorem consecutive_errors_three_failures:
  "fst (execute_tasks always_fails 3 0 (LoadGenerator_init (retry_cfg 0))) = [PyNone, PyNone, PyNone] \<and>
   consecutive_errors (snd (snd (execute_tasks always_fails 3 0 (LoadGenerator_init (retry_cfg 0))))) = 2 \<and>
   consecutive_errors (snd (snd (execute_tasks always_fails 3 0 (LoadGenerator_init (retry_cfg 0))))) \<noteq> 3"
  by (simp add: execute_with_retry_def LoadGenerator_init_def retry_cfg_def always_fails_def
      classify_invalid_request invalid_request_not_socket_timeout Let_def eval_nat_numeral)

lemma always_fails_once:
  "fst (execute_with_retry always_fails 0 (LoadGenerator_init (retry_cfg 0))) = PyNone"
  by (simp add: execute_with_retry_def LoadGenerator_init_def retry_cfg_def always_fails_def
      classify_invalid_request invalid_request_not_socket_timeout Let_def)

text \<open>The amended C7 at the task that always raises, started with the counter at 5.\<close>

theorem consecutive_errors_after_execute_with_retry_witness:
  "\<exists>n' g'. execute_with_retry always_fails 0 (LoadGenerator_init (retry_cfg 0)) = (PyNone, n', g') \<and>
     0 < consecutive_errors g' \<and>
     execute_with_retry always_fails 0
       ((LoadGenerator_init (retry_cfg 0))\<lparr>consecutive_errors := 5, consecutive_error_count := 5\<rparr>)
       = (PyNone, n', g')"
proof -
  obtain v n' g' where e: "execute_with_retry always_fails 0 (LoadGenerator_init (retry_cfg 0)) = (v, n', g')"
    by (metis prod_cases3)
  have v: "v = PyNone"
    using always_fails_once e by simp
  have "0 \<le> rc_max_retries (retry_config (LoadGenerator_init (retry_cfg 0)))"
    by (simp add: LoadGenerator_init_def retry_cfg_def)
  with consecutive_errors_after_execute_with_retry [OF e, of 5 5] v e show ?thesis by auto
qed

lemma retry_loop_before_results:
  "retry_loop f n a k g = (v, n', g') \<Longrightarrow> before_results g' = before_results g"
proof (induction k arbitrary: n a g)
  case 0
  then show ?case by simp
next
  case (Suc k)
  show ?case
  proof (cases "outcome (f n)")
    case (Returns result)
    from Suc.prems show ?thesis
      by (subst (asm) retry_loop.simps(2))
         (auto simp add: Returns Let_def simp del: retry_loop.simps split: if_splits)
  next
    case (Raises e)
    from Suc.prems Suc.IH show ?thesis
      by (subst (asm) retry_loop.simps(2))
         (auto simp add: Raises Let_def simp del: retry_loop.simps split: if_splits)
  qed
qed

lemma retry_loop_returns_at_once:
  "outcome (f n) = Returns r \<Longrightarrow> retry_loop f n a (Suc k) g = (v, n', g') \<Longrightarrow> n' = Suc n"
  by (subst (asm) retry_loop.simps(2))
     (auto simp add: Let_def simp del: retry_loop.simps split: if_splits)

lemma execute_with_retry_calls:
  assumes "0 \<le> rc_max_retries (retry_config g)"
    and "execute_with_retry f n g = (v, n', g')"
  shows "n < n'" and "n' \<le> n + nat (rc_max_retries (retry_config g)) + 1"
    and "before_results g' = before_results g"
    and "outcome (f n) = Returns r \<Longrightarrow> n' = Suc n"
proof -
  from assms(1) obtain k where k: "nat (rc_max_retries (retry_config g) + 1) = Suc k"
    by (cases "nat (rc_max_retries (retry_config g) + 1)") auto
  then have k': "k = nat (rc_max_retries (retry_config g))" using assms(1) by linarith
  from assms(2) have loop:
    "retry_loop f n 0 (Suc k) (g\<lparr>consecutive_error_count := 0, consecutive_errors := 0\<rparr>) = (v, n', g')"
    by (simp add: execute_with_retry_def k)
  from retry_loop_result [OF loop] k' show "n < n'" "n' \<le> n + nat (rc_max_retries (retry_config g)) + 1"
    by auto
  from retry_loop_before_results [OF loop] show "before_results g' = before_results g" by simp
  show "outcome (f n) = Returns r \<Longrightarrow> n' = Suc n"
    using retry_loop_returns_at_once [OF _ loop] by simp
qed

text \<open>
  Claim C10, as amended.  When the thread pool can be created (at least one worker) and
  the retry budget is at least 0, \<open>_execute_before_tasks\<close> calls the before function once as
  a pool submission, whose result is dropped, and then once per attempt of a single
  \<open>_execute_with_retry\<close> call: at least twice and at most \<open>2 + max_retries\<close> times in all,
  exactly twice when the retry executor's first attempt returns.  Exactly one value, the
  retry executor's result, is appended to the before results, and nothing of this depends
  on the before concurrency.
\<close>

theorem execute_before_tasks_invocations:
  assumes "0 < pool_workers (before_concurrent cfg) (max_thread_pool_size cfg)"
    and "0 \<le> rc_max_retries (retry_config g)"
    and "execute_before_tasks cfg before_func n g = (r, n', g')"
  shows "n + 2 \<le> n' \<and> n' \<le> n + 2 + nat (rc_max_retries (retry_config g)) \<and>
         ((\<exists>v. outcome (before_func (Suc n)) = Returns v) \<longrightarrow> n' = n + 2) \<and>
         before_results g' = before_results g @
           [fst (execute_with_retry before_func (Suc n)
                   (if calls_stop (before_func n) then stop g else g))] \<and>
         (0 < pool_workers c (max_thread_pool_size cfg) \<longrightarrow>
            execute_before_tasks (cfg\<lparr>before_concurrent := c\<rparr>) before_func n g = (r, n', g'))"
proof -
  let ?g1 = "if calls_stop (before_func n) then stop g else g"
  obtain v m g2 where e: "execute_with_retry before_func (Suc n) ?g1 = (v, m, g2)"
    by (metis prod_cases3)
  have rc: "0 \<le> rc_max_retries (retry_config ?g1)" "retry_config ?g1 = retry_config g"
    using assms(2) by simp_all
  note calls = execute_with_retry_calls [OF rc(1) e]
  have n': "n' = m"
    using assms(1,3) e by (auto simp: execute_before_tasks_def Let_def split: py_value.splits if_splits)
  have br: "before_results g' = before_results g2 @ [v]"
    using assms(1,3) e
    by (auto simp: execute_before_tasks_def Let_def stop_def split: py_value.splits if_splits)
  have "before_results g2 = before_results g" using calls(3) by simp
  moreover have indep: "0 < pool_workers c (max_thread_pool_size cfg) \<Longrightarrow>
      execute_before_tasks (cfg\<lparr>before_concurrent := c\<rparr>) before_func n g = (r, n', g')"
  proof -
    assume "0 < pool_workers c (max_thread_pool_size cfg)"
    with assms(1) have
      "execute_before_tasks (cfg\<lparr>before_concurrent := c\<rparr>) before_func n g =
       execute_before_tasks cfg before_func n g"
      unfolding execute_before_tasks_def
      by (simp add: Let_def split: prod.splits py_value.splits)
    with assms(3) show ?thesis by simp
  qed
  ultimately show ?thesis
    using calls(1,2,4) n' br e rc(2) by auto
qed

lemma timed_out_classified: "classify_error_type timed_out = ''timeout''"
  by (simp add: classify_error_type_def timed_out_def isinstance_def Let_def)

text \<open>
  Claim C10 as stated fails: with one retry configured and a before function whose second
  call times out, the before function is invoked three times.
\<close>

theorem execute_before_tasks_three_invocations:
  "fst (snd (execute_before_tasks (retry_cfg 1) flaky_before 0 (LoadGenerator_init (retry_cfg 1)))) = 3"
  by (simp add: execute_before_tasks_def execute_with_retry_def LoadGenerator_init_def
      retry_cfg_def flaky_before_def pool_workers_def timed_out_classified Let_def
      eval_nat_numeral)

text \<open>The amended C10 at a before function that returns at every call.\<close>

theorem execute_before_tasks_invocations_witness:
  "0 < pool_workers (before_concurrent (retry_cfg 1)) (max_thread_pool_size (retry_cfg 1)) \<and>
   0 \<le> rc_max_retries (retry_config (LoadGenerator_init (retry_cfg 1))) \<and>
   (\<exists>r g'. execute_before_tasks (retry_cfg 1) always_none 0 (LoadGenerator_init (retry_cfg 1)) = (r, 2, g') \<and>
      length (before_results g') = 1)"
proof -
  have h1: "0 < pool_workers (before_concurrent (retry_cfg 1)) (max_thread_pool_size (retry_cfg 1))"
    by (simp add: retry_cfg_def pool_workers_def)
  have h2: "0 \<le> rc_max_retries (retry_config (LoadGenerator_init (retry_cfg 1)))"
    by (simp add: LoadGenerator_init_def retry_cfg_def)
  obtain r n' g' where
    e: "execute_before_tasks (retry_cfg 1) always_none 0 (LoadGenerator_init (retry_cfg 1)) = (r, n', g')"
    by (metis prod_cases3)
  have ret: "\<exists>v. outcome (always_none (Suc 0)) = Returns v" by (simp add: always_none_def)
  have "before_results (LoadGenerator_init (retry_cfg 1)) = []"
    by (simp add: LoadGenerator_init_def)
  with execute_before_tasks_invocations [OF h1 h2 e] ret
  have "n' = 2" "length (before_results g') = 1" by auto
  with h1 h2 e show ?thesis by auto
qed

lemma upto_0_1: "[0..1] = [0, 1::int]"
  by (simp add: upto_rec1)

text \<open>
  Claim C1 at a failing input.  For a ramp-up run with one user and one step, whatever the
  load loops would do, \<open>generate_load\<close> raises \<open>NameError\<close>: the first step with a positive
  number of users reads \<open>max_thread_pool_size\<close>, which \<open>_generate_ramp_up_load\<close> never
  assigns.
\<close>

theorem generate_load_ramp_up_raises:
  "fst (generate_load ramp_up_cfg ph None None nb na g) = Inl undefined_max_thread_pool_size"
  by (simp add: generate_load_def generate_load_try_def load_and_after_def run_test_type_def
      generate_ramp_up_load_def ramp_up_cfg_def retry_cfg_def run_start_def
      reset_error_statistics_def upto_0_1 Let_def)


lemma execute_after_tasks_runs:
  assumes "0 < pool_workers (after_concurrent cfg) (max_thread_pool_size cfg)"
  shows "\<exists>g'. execute_after_tasks cfg after_func na g = (Inr (), Suc na, g') \<and>
              after_tasks_completed g' \<and>
              length (after_results g') = Suc (length (after_results g)) \<and>
              stop_event g' = (stop_event g \<or> calls_stop (after_func na))"
  using assms
  by (cases "outcome (after_func na)")
     (auto simp: execute_after_tasks_def Let_def stop_def)

lemma load_and_after_runs_after:
  assumes "0 < pool_workers (after_concurrent cfg) (max_thread_pool_size cfg)"
    and "run_test_type cfg ph g1 = (Inr test_result, g2)"
  shows "\<exists>g3. load_and_after cfg ph (Some after_func) na g1 =
                 (Inr (add_phase_results g3 test_result), Suc na, g3) \<and>
              execute_after_tasks cfg after_func na g2 = (Inr (), Suc na, g3) \<and>
              after_tasks_completed g3 \<and>
              length (after_results g3) = Suc (length (after_results g2))"
proof -
  from execute_after_tasks_runs [OF assms(1), of after_func na g2]
  obtain g3 where "execute_after_tasks cfg after_func na g2 = (Inr (), Suc na, g3)"
    "after_tasks_completed g3" "length (after_results g3) = Suc (length (after_results g2))"
    by blast
  with assms(2) show ?thesis by (simp add: load_and_after_def)
qed

text \<open>
  When the stop event is not set at the end of the before phase and the load phase
  returns, the try block itself runs the after tasks.
\<close>

lemma after_phase_runs_when_load_returns:
  assumes "0 < pool_workers (after_concurrent cfg) (max_thread_pool_size cfg)"
    and "(before_func = None \<and> nb' = nb \<and> g1 = run_start g) \<or>
         (\<exists>bf. before_func = Some bf \<and>
               execute_before_tasks cfg bf nb (run_start g) = (Inr (), nb', g1) \<and>
               \<not> stop_event g1)"
    and "run_test_type cfg ph g1 = (Inr test_result, g2)"
  shows "\<exists>g3. generate_load cfg ph before_func (Some after_func) nb na g =
                 (Inr (add_phase_results g3 test_result), nb', Suc na, g3\<lparr>running := False\<rparr>) \<and>
              execute_after_tasks cfg after_func na g2 = (Inr (), Suc na, g3) \<and>
              after_tasks_completed g3 \<and>
              length (after_results g3) = Suc (length (after_results g2))"
proof -
  from load_and_after_runs_after [OF assms(1,3), of after_func na]
  obtain g3 where la: "load_and_after cfg ph (Some after_func) na g1 =
                         (Inr (add_phase_results g3 test_result), Suc na, g3)"
    and rest: "execute_after_tasks cfg after_func na g2 = (Inr (), Suc na, g3)"
      "after_tasks_completed g3" "length (after_results g3) = Suc (length (after_results g2))"
    by blast
  have "generate_load_try cfg ph before_func (Some after_func) nb na (run_start g) =
          (Inr (add_phase_results g3 test_result), nb', Suc na, g3)"
    using assms(2) la by (auto simp: generate_load_try_def)
  with rest show ?thesis by (simp add: generate_load_def Let_def)
qed

lemma after_phase_skipped_when_before_stops:
  assumes "execute_before_tasks cfg bf nb (run_start g) = (Inr (), nb', g1)" and "stop_event g1"
  shows "generate_load cfg ph (Some bf) (Some after_func) nb na g =
           (Inr stopped_result, nb', na, g1\<lparr>running := False\<rparr>)"
  using assms by (simp add: generate_load_def generate_load_try_def Let_def)







lemma stop_error_count [simp]: "error_count (stop g) = error_count g"
  by (simp add: stop_def)







lemma stop_after_fields [simp]:
  "after_tasks_completed (stop g) = after_tasks_completed g"
  "after_results (stop g) = after_results g"
  by (simp_all add: stop_def)

lemma record_error_after_fields [simp]:
  "after_tasks_completed (record_error t msg g) = after_tasks_completed g"
  "after_results (record_error t msg g) = after_results g"
  by (simp_all add: record_error_def Let_def)





lemma run_start_after_fields [simp]:
  "after_tasks_completed (run_start g) = False" "after_results (run_start g) = []"
  "stop_event (run_start g) = False"
  by (simp_all add: run_start_def)











end
